theory Spec2Isabelle
  imports Complex_Main "HOL-Library.AList" "HOL-Library.Char_ord" "HOL-Library.List_Lexorder"
begin

section \<open>Values shared by the layer and the recurrent-unit code\<close>

text \<open>
  Python exceptions are values. \<open>ShapeError\<close> stands for the error the tensor library
  raises when the dimensions of two operands do not agree, \<open>LookupError\<close> for the
  exception of a collaborator outside these sources.
\<close>

datatype error =
  AssertionError | TypeError | ValueError | ZeroDivisionError | KeyError
  | AttributeError | ShapeError | IndexError | LookupError

text \<open>
  A stored floating-point number is a finite real, an infinity or a NaN; arithmetic on
  finite values is exact (rounding to float32 is not part of the model).
\<close>

datatype fl = Fin real | PosInf | NegInf | NaN

record ndarray =
  shape :: "nat list"
  data :: "fl list"

text \<open>A shared variable of the tensor library: an optional name and its current value.\<close>

record shared_var =
  var_name :: "string option"
  var_value :: ndarray

text \<open>Attribute values of a layer (\<open>dict[str, str|float|int|bool|dict]\<close>).\<close>

datatype attr =
  ABool bool | ANumpyBool bool | AInt int | AFloat real | AStr string
  | AStrList "string list" | ADict "(string \<times> attr) list" | ANone

datatype log_line = V3 string | V4 string

section \<open>Container (NetworkBaseLayer.py)\<close>

text \<open>
  \<open>network\<close> is \<open>None\<close> when the container has no network or the network has no
  \<open>get_layer_param\<close>; otherwise it is that callback, called with the layer name, the
  parameter name and the parameter, returning a substitute or nothing.
  \<open>substitute_param_expr\<close> is the meaning of the Python expression of the same name
  (\<open>None\<close> when the string is empty or absent): a function of the layer's parameters
  and name, the parameter name and the parameter.
\<close>

record container =
  name :: string
  layer_class :: string
  params :: "(string \<times> shared_var) list"
  attrs :: "(string \<times> attr) list"
  depth :: nat
  train_flag :: bool
  network :: "(string \<Rightarrow> string \<Rightarrow> shared_var \<Rightarrow> shared_var option) option"
  substitute_param_expr ::
    "((string \<times> shared_var) list \<Rightarrow> string \<Rightarrow> string \<Rightarrow> shared_var \<Rightarrow> shared_var option) option"

subsection \<open>Decimal formatting (\<open>"%d"\<close>, \<open>"%i"\<close>) and \<open>int(str)\<close>\<close>

definition digit_char :: "nat \<Rightarrow> char" where
  "digit_char d = ''0123456789'' ! d"

fun show_nat :: "nat \<Rightarrow> string" where
  "show_nat n = (if n < 10 then [digit_char n] else show_nat (n div 10) @ [digit_char (n mod 10)])"

declare show_nat.simps [simp del]

definition is_digit :: "char \<Rightarrow> bool" where
  "is_digit c \<longleftrightarrow> c \<in> set ''0123456789''"

text \<open>The value of a decimal digit: its position in the digit alphabet.\<close>

definition digit_val :: "char \<Rightarrow> nat" where
  "digit_val c = length (takeWhile (\<lambda>d. d \<noteq> c) ''0123456789'')"

definition int_of_digits :: "string \<Rightarrow> nat" where
  "int_of_digits ds = foldl (\<lambda>acc c. 10 * acc + digit_val c) 0 ds"

subsection \<open>add_param, num_params, get_params_dict, get_params_vars\<close>

definition param_name :: "container \<Rightarrow> shared_var \<Rightarrow> string \<Rightarrow> string" where
  "param_name self param nm =
    (let nm1 = (if nm = [] then (case var_name param of Some s \<Rightarrow> s | None \<Rightarrow> []) else nm)
     in if nm1 = [] then ''param_'' @ show_nat (length (params self)) else nm1)"

definition network_substitute :: "container \<Rightarrow> string \<Rightarrow> shared_var \<Rightarrow> shared_var option" where
  "network_substitute self nm param =
    (case network self of None \<Rightarrow> None | Some get_layer_param \<Rightarrow> get_layer_param (name self) nm param)"

definition expr_substitute :: "container \<Rightarrow> string \<Rightarrow> shared_var \<Rightarrow> shared_var option" where
  "expr_substitute self nm param =
    (case substitute_param_expr self of None \<Rightarrow> None
     | Some expr \<Rightarrow> expr (params self) (name self) nm param)"

definition add_param :: "container \<Rightarrow> shared_var \<Rightarrow> string \<Rightarrow> shared_var \<times> container" where
  "add_param self param nm =
    (let nm' = param_name self param nm in
     case network_substitute self nm' param of
       Some substitute \<Rightarrow> (substitute, self)
     | None \<Rightarrow>
        (case expr_substitute self nm' param of
           Some substitute \<Rightarrow> (substitute, self)
         | None \<Rightarrow> (param, self\<lparr>params := AList.update nm' param (params self)\<rparr>)))"

definition num_params :: "container \<Rightarrow> nat" where
  "num_params self = sum_list (map (\<lambda>(p, v). prod_list (shape (var_value v))) (params self))"

definition get_params_dict :: "container \<Rightarrow> (string \<times> ndarray) list" where
  "get_params_dict self = map (\<lambda>(p, v). (p, var_value v)) (params self)"

definition get_params_vars :: "container \<Rightarrow> shared_var list" where
  "get_params_vars self = map snd (sort_key fst (params self))"

subsection \<open>The parameter file: save\<close>

record group =
  g_class :: "string option"
  datasets :: "(string \<times> ndarray) list"
  g_attrs :: "(string \<times> attr) list"

text \<open>
  \<open>json.dumps\<close> is a parameter. An attribute the file format cannot hold (\<open>None\<close>)
  raises \<open>TypeError\<close> inside \<open>save\<close>, which logs a warning and goes on.
\<close>

fun save_attrs ::
  "(attr \<Rightarrow> string) \<Rightarrow> string \<Rightarrow> (string \<times> attr) list
     \<Rightarrow> (string \<times> attr) list \<times> log_line list \<Rightarrow> (string \<times> attr) list \<times> log_line list" where
  "save_attrs json_dumps lname [] acc = acc"
| "save_attrs json_dumps lname ((p, v) # rest) (stored, lg) =
    (let v' = (case v of ADict _ \<Rightarrow> AStr (json_dumps v) | AStrList _ \<Rightarrow> AStr (json_dumps v) | _ \<Rightarrow> v)
     in case v' of
          ANone \<Rightarrow> save_attrs json_dumps lname rest
                    (stored, lg @ [V3 (''warning: invalid type of attribute '' @ p @ '' in layer '' @ lname)])
        | _ \<Rightarrow> save_attrs json_dumps lname rest (AList.update p v' stored, lg))"

definition save ::
  "(attr \<Rightarrow> string) \<Rightarrow> container \<Rightarrow> (string \<times> group) list \<Rightarrow> error + ((string \<times> group) list \<times> log_line list)" where
  "save json_dumps self head =
    (if name self \<in> fst ` set head then Inl ValueError
     else
       (let (stored, lg) = save_attrs json_dumps (name self) (attrs self) ([], []);
            grp = \<lparr>g_class = Some (layer_class self),
                   datasets = map (\<lambda>(p, v). (p, var_value v)) (params self),
                   g_attrs = stored\<rparr>
        in Inr (head @ [(name self, grp)], lg)))"


subsection \<open>The parameter file: load\<close>

definition has_nonfinite :: "ndarray \<Rightarrow> bool" where
  "has_nonfinite a = list_ex (\<lambda>v. case v of Fin _ \<Rightarrow> False | _ \<Rightarrow> True) (data a)"

text \<open>
  \<open>get_layer_class\<close> lives in NetworkLayer.py, which is not part of these sources: it
  is a parameter, called with the class name and \<open>raise_exception\<close>, and may raise.
\<close>

definition load_check_class ::
  "(string \<Rightarrow> bool \<Rightarrow> error + 'c option) \<Rightarrow> container \<Rightarrow> group \<Rightarrow> error + log_line list" where
  "load_check_class get_layer_class self grp =
    (case g_class grp of
       None \<Rightarrow> Inl KeyError
     | Some stored_class \<Rightarrow>
        (let grp_class = (if stored_class = ''<unknown_softmax>'' then ''softmax'' else stored_class) in
         if grp_class \<noteq> layer_class self then
           (case get_layer_class grp_class False of
              Inl e \<Rightarrow> Inl e
            | Inr a \<Rightarrow>
               (case get_layer_class (layer_class self) True of
                  Inl e \<Rightarrow> Inl e
                | Inr b \<Rightarrow>
                   if a \<noteq> b
                   then Inr [V3 (''warning: invalid layer class (expected '' @ layer_class self
                                  @ '' got '' @ stored_class @ '')'')]
                   else Inr []))
         else Inr []))"

definition missing_warning :: "string \<Rightarrow> string \<Rightarrow> log_line" where
  "missing_warning lname p = V4 (''unable to load parameter '' @ p @ '' in '' @ lname)"

definition load_missing :: "container \<Rightarrow> group \<Rightarrow> log_line list" where
  "load_missing self grp =
    map (missing_warning (name self))
      (filter (\<lambda>p. map_of (datasets grp) p = None) (map fst (params self)))"

text \<open>
  The second loop of \<open>load\<close>, over the members of the group in the file's order. An
  assertion that fails ends the loop with the parameters assigned so far.
\<close>

fun load_loop ::
  "string \<Rightarrow> (string \<times> ndarray) list \<Rightarrow> (string \<times> shared_var) list \<Rightarrow> log_line list
     \<Rightarrow> error option \<times> (string \<times> shared_var) list \<times> log_line list" where
  "load_loop lname [] ps lg = (None, ps, lg)"
| "load_loop lname ((p, a) # rest) ps lg =
    (case map_of ps p of
       None \<Rightarrow> load_loop lname rest ps (lg @ [V4 (''unable to match parameter '' @ p @ '' in '' @ lname)])
     | Some v \<Rightarrow>
        if shape (var_value v) \<noteq> shape a then (Some AssertionError, ps, lg)
        else if has_nonfinite a then (Some AssertionError, ps, lg)
        else load_loop lname rest (AList.update p (v\<lparr>var_value := a\<rparr>) ps) lg)"

definition load ::
  "(string \<Rightarrow> bool \<Rightarrow> error + 'c option) \<Rightarrow> container \<Rightarrow> (string \<times> group) list
     \<Rightarrow> error option \<times> container \<times> log_line list" where
  "load get_layer_class self head =
    (case map_of head (name self) of
       None \<Rightarrow> (None, self, [V3 (''warning: unable to load parameters for layer '' @ name self)])
     | Some grp \<Rightarrow>
        (case load_check_class get_layer_class self grp of
           Inl e \<Rightarrow> (Some e, self, [])
         | Inr lg0 \<Rightarrow>
            (case load_loop (name self) (datasets grp) (params self) (lg0 @ load_missing self grp) of
               (err, ps, lg) \<Rightarrow> (err, self\<lparr>params := ps\<rparr>, lg))))"

subsection \<open>guess_source_layer_name and to_json\<close>

text \<open>
  \<open>re.search("^.*?([0-9]+)[^0-9]*$", layer_name)\<close>: \<open>match_here\<close> is the part after the
  lazy prefix (a non-empty run of digits, then no digit up to the end); \<open>re_search\<close>
  tries the shortest prefix first and gives up at a newline, which \<open>.\<close> does not match.
  The result is the text before the group, the group and the text after it.
\<close>

definition match_here :: "string \<Rightarrow> (string \<times> string) option" where
  "match_here s =
    (let ds = takeWhile is_digit s; rest = dropWhile is_digit s
     in if ds \<noteq> [] \<and> list_all (\<lambda>c. \<not> is_digit c) rest then Some (ds, rest) else None)"

fun re_search :: "string \<Rightarrow> string \<Rightarrow> (string \<times> string \<times> string) option" where
  "re_search pre [] = None"
| "re_search pre (c # cs) =
    (case match_here (c # cs) of
       Some (ds, suf) \<Rightarrow> Some (pre, ds, suf)
     | None \<Rightarrow> if c = CHR 0x0A then None else re_search (pre @ [c]) cs)"

definition guess_source_layer_name :: "string \<Rightarrow> string option" where
  "guess_source_layer_name layer_name =
    (case re_search [] layer_name of
       None \<Rightarrow> None
     | Some (pre, ds, suf) \<Rightarrow>
        (let nr = int_of_digits ds in
         if nr > 0 then Some (pre @ show_nat (nr - 1) @ suf) else None))"

fun split_on :: "char \<Rightarrow> string \<Rightarrow> string list" where
  "split_on c [] = [[]]"
| "split_on c (x # xs) =
    (if x = c then [] # split_on c xs
     else (case split_on c xs of w # ws \<Rightarrow> (x # w) # ws | [] \<Rightarrow> [[x]]))"

definition to_json :: "container \<Rightarrow> error + (string \<times> attr) list" where
  "to_json self =
    (let attrs' = map (\<lambda>(k, v). (k, case v of ANumpyBool b \<Rightarrow> ABool b | _ \<Rightarrow> v)) (attrs self) in
     case map_of attrs' ''from'' of
       None \<Rightarrow> Inr attrs'
     | Some (AStr s) \<Rightarrow>
        if s = ''data'' then Inr (AList.delete ''from'' attrs')
        else if s = [] then
          (case guess_source_layer_name (name self) of
             Some guessed \<Rightarrow> Inr (AList.update ''from'' (AStrList [guessed]) attrs')
           | None \<Rightarrow> Inr (AList.delete ''from'' attrs'))
        else Inr (AList.update ''from'' (AStrList (split_on CHR '','' s)) attrs')
     | Some _ \<Rightarrow> Inl AttributeError)"

subsection \<open>Weight initialisation: create_random_uniform_weights\<close>

text \<open>Python truthiness of an optional number: \<open>None\<close> and zero are false.\<close>

definition truthy :: "real option \<Rightarrow> bool" where
  "truthy v = (case v of None \<Rightarrow> False | Some x \<Rightarrow> x \<noteq> 0)"

text \<open>
  The bound \<open>l\<close> that the function computes before it draws. \<open>math.sqrt\<close> raises
  \<open>ValueError\<close> below zero, and the division raises when \<open>sqrt(p)\<close> is zero.
\<close>

definition uniform_bound ::
  "nat \<Rightarrow> nat \<Rightarrow> real option \<Rightarrow> real option \<Rightarrow> real option \<Rightarrow> error + real" where
  "uniform_bound n m p p_add l =
    (if truthy p \<and> truthy l then Inl AssertionError
     else
       (let p1 = (case p of Some x \<Rightarrow> if x \<noteq> 0 then x else real (n + m) | None \<Rightarrow> real (n + m));
            p2 = (case p_add of Some x \<Rightarrow> if x \<noteq> 0 then p1 + x else p1 | None \<Rightarrow> p1)
        in case l of
             Some x \<Rightarrow>
               if x \<noteq> 0 then Inr x
               else if p2 < 0 then Inl ValueError
               else if sqrt p2 = 0 then Inl ZeroDivisionError
               else Inr (sqrt 6 / sqrt p2)
           | None \<Rightarrow>
               if p2 < 0 then Inl ValueError
               else if sqrt p2 = 0 then Inl ZeroDivisionError
               else Inr (sqrt 6 / sqrt p2)))"

text \<open>
  \<open>rng.uniform(low, high, size)\<close> of the numerical library: entry \<open>k\<close> is
  \<open>low + (high - low) * u k\<close> for the generator's \<open>k\<close>-th unit sample \<open>u k\<close>, which lies
  in \<open>[0, 1)\<close>.
\<close>

definition rng_uniform :: "(nat \<Rightarrow> real) \<Rightarrow> real \<Rightarrow> real \<Rightarrow> nat list \<Rightarrow> real list" where
  "rng_uniform u low high sz = map (\<lambda>k. low + (high - low) * u k) [0..<prod_list sz]"

definition create_random_uniform_weights ::
  "container \<Rightarrow> (nat \<Rightarrow> real) \<Rightarrow> nat \<Rightarrow> nat \<Rightarrow> real option \<Rightarrow> real option \<Rightarrow> real option
     \<Rightarrow> string option \<Rightarrow> nat option \<Rightarrow> error + shared_var" where
  "create_random_uniform_weights self u n m p p_add l nm dpth =
    (let depth' = (case dpth of Some d \<Rightarrow> if d \<noteq> 0 then d else depth self | None \<Rightarrow> depth self);
         nm' = (case nm of None \<Rightarrow> ''W_'' @ name self | Some s \<Rightarrow> s)
     in case uniform_bound n m p p_add l of
          Inl e \<Rightarrow> Inl e
        | Inr l' \<Rightarrow>
           (let sz = (if depth' > 1 then [n, depth', m] else [n, m]);
                values = rng_uniform u (- l') l' sz
            in Inr \<lparr>var_name = Some nm', var_value = \<lparr>shape = sz, data = map Fin values\<rparr>\<rparr>))"

section \<open>Layer (NetworkBaseLayer.py)\<close>

subsection \<open>Dropout masks and mass in the constructor\<close>


subsection \<open>Tensors of the layer outputs\<close>

text \<open>
  A symbolic tensor is modelled by its value: a scalar, or the list of its slices along
  the first axis, so a (time, batch, feature) output is a list of lists of lists.
  Tensors with an empty axis are not represented; the operations below return an error
  for them, and for operands whose shapes the tensor library rejects.
\<close>

datatype tensor = Scalar real | Tensor "tensor list"

fun shape_of :: "tensor \<Rightarrow> nat list" where
  "shape_of (Scalar v) = []"
| "shape_of (Tensor []) = [0]"
| "shape_of (Tensor (t # ts)) = Suc (length ts) # shape_of t"

fun rect :: "tensor \<Rightarrow> bool" where
  "rect (Scalar v) = True"
| "rect (Tensor ts) = (list_all rect ts \<and> list_all (\<lambda>t. shape_of t = shape_of (hd ts)) ts)"

definition proper :: "tensor \<Rightarrow> bool" where
  "proper t \<longleftrightarrow> rect t \<and> 0 \<notin> set (shape_of t)"

fun tmap :: "(real \<Rightarrow> real) \<Rightarrow> tensor \<Rightarrow> tensor" where
  "tmap f (Scalar v) = Scalar (f v)"
| "tmap f (Tensor ts) = Tensor (map (tmap f) ts)"

lemma size_zip_members:
  "(x, y) \<in> set (zip xs ys) \<Longrightarrow> size (x :: tensor) + size (y :: tensor) < Suc (size_list size xs + size_list size ys)"
proof -
  assume m: "(x, y) \<in> set (zip xs ys)"
  have "x \<in> set xs" using m by (rule set_zip_leftD)
  then have a: "size x \<le> size_list size xs" by (simp add: size_list_estimation')
  have "y \<in> set ys" using m by (rule set_zip_rightD)
  then have "size y \<le> size_list size ys" by (simp add: size_list_estimation')
  with a show ?thesis by simp
qed

text \<open>Element-wise binary operation; a scalar operand is broadcast.\<close>

function tzip :: "(real \<Rightarrow> real \<Rightarrow> real) \<Rightarrow> tensor \<Rightarrow> tensor \<Rightarrow> tensor" where
  "tzip f (Scalar a) (Scalar b) = Scalar (f a b)"
| "tzip f (Scalar a) (Tensor ys) = Tensor (map (\<lambda>y. tzip f (Scalar a) y) ys)"
| "tzip f (Tensor xs) (Scalar b) = Tensor (map (\<lambda>x. tzip f x (Scalar b)) xs)"
| "tzip f (Tensor xs) (Tensor ys) = Tensor (map (\<lambda>(x, y). tzip f x y) (zip xs ys))"
  by pat_completeness auto
termination
  by (relation "measure (\<lambda>(f, x, y). size x + size y)")
     (auto simp: less_Suc_eq_le size_list_estimation' dest: size_zip_members)

text \<open>
  Reductions along an axis: \<open>reduce_axis r k t\<close> replaces every list of slices along
  axis \<open>k\<close> by \<open>r\<close> of that list.
\<close>

fun treduce :: "(real \<Rightarrow> real \<Rightarrow> real) \<Rightarrow> tensor list \<Rightarrow> tensor" where
  "treduce f [] = Tensor []"
| "treduce f (t # ts) = foldl (tzip f) t ts"

fun reduce_axis :: "(tensor list \<Rightarrow> tensor) \<Rightarrow> nat \<Rightarrow> tensor \<Rightarrow> tensor" where
  "reduce_axis r k (Scalar v) = Scalar v"
| "reduce_axis r 0 (Tensor ts) = r ts"
| "reduce_axis r (Suc k) (Tensor ts) = Tensor (map (reduce_axis r k) ts)"

definition mean_list :: "tensor list \<Rightarrow> tensor" where
  "mean_list ts = tmap (\<lambda>v. v / real (length ts)) (treduce (+) ts)"

definition var_list :: "tensor list \<Rightarrow> tensor" where
  "var_list ts = mean_list (map (\<lambda>t. tmap (\<lambda>v. v * v) (tzip (-) t (mean_list ts))) ts)"

definition T_sum :: "nat \<Rightarrow> tensor \<Rightarrow> tensor" where
  "T_sum axis t = reduce_axis (treduce (+)) axis t"

definition T_mean :: "nat \<Rightarrow> tensor \<Rightarrow> tensor" where
  "T_mean axis t = reduce_axis mean_list axis t"

definition T_max :: "nat \<Rightarrow> tensor \<Rightarrow> tensor" where
  "T_max axis t = reduce_axis (treduce max) axis t"

definition T_min :: "nat \<Rightarrow> tensor \<Rightarrow> tensor" where
  "T_min axis t = reduce_axis (treduce min) axis t"

definition T_prod :: "nat \<Rightarrow> tensor \<Rightarrow> tensor" where
  "T_prod axis t = reduce_axis (treduce (*)) axis t"

definition T_var :: "nat \<Rightarrow> tensor \<Rightarrow> tensor" where
  "T_var axis t = reduce_axis var_list axis t"

text \<open>\<open>flatten(ndim=n)\<close> keeps the first \<open>n - 1\<close> axes and joins the others.\<close>

fun entries :: "tensor \<Rightarrow> real list" where
  "entries (Scalar v) = [v]"
| "entries (Tensor ts) = concat (map entries ts)"

fun flatten_nd :: "nat \<Rightarrow> tensor \<Rightarrow> tensor" where
  "flatten_nd (Suc (Suc n)) (Tensor ts) = Tensor (map (flatten_nd (Suc n)) ts)"
| "flatten_nd (Suc 0) t = Tensor (map Scalar (entries t))"
| "flatten_nd n t = t"

text \<open>\<open>networks[:, ..., idx]\<close> with a one-element index array on axis \<open>k\<close>.\<close>

fun take_axis :: "nat \<Rightarrow> nat \<Rightarrow> tensor \<Rightarrow> tensor" where
  "take_axis k idx (Scalar v) = Scalar v"
| "take_axis 0 idx (Tensor ts) = Tensor [ts ! idx]"
| "take_axis (Suc k) idx (Tensor ts) = Tensor (map (take_axis k idx) ts)"





subsection \<open>Attribute access and the collaborators of a layer\<close>

definition bind_err :: "error + 'a \<Rightarrow> ('a \<Rightarrow> error + 'b) \<Rightarrow> error + 'b" where
  "bind_err m f = (case m of Inl e \<Rightarrow> Inl e | Inr x \<Rightarrow> f x)"

definition attr_get :: "container \<Rightarrow> string \<Rightarrow> error + attr" where
  "attr_get self k = (case map_of (attrs self) k of None \<Rightarrow> Inl KeyError | Some v \<Rightarrow> Inr v)"



fun attr_int :: "attr \<Rightarrow> error + int" where
  "attr_int (AInt i) = Inr i"
| "attr_int v = Inl TypeError"

text \<open>
  What a layer takes from outside this file: \<open>concat_sources\<close> of NetworkHiddenLayer.py
  (its result \<open>(z, n_in)\<close> on the layer's sources), the weights that
  \<open>create_forward_weights\<close> makes from the initialiser expression, operations of the
  tensor library that mix a tensor with a shared variable, the random generators, and
  the name of the tensor passed to \<open>make_output\<close>.
\<close>

record layer_env =
  concat_sources :: "tensor \<times> int"
  create_forward_weights :: "int \<Rightarrow> int \<Rightarrow> string \<Rightarrow> shared_var"
  lib_dot :: "tensor \<Rightarrow> shared_var \<Rightarrow> tensor"
  lib_tensordot :: "shared_var \<Rightarrow> tensor \<Rightarrow> nat \<Rightarrow> nat \<Rightarrow> tensor"
  lib_mul_var :: "tensor \<Rightarrow> shared_var \<Rightarrow> tensor"
  lib_add_var :: "tensor \<Rightarrow> shared_var \<Rightarrow> tensor"
  rng_unit :: "nat \<Rightarrow> real"
  rng_random_integers :: "nat \<Rightarrow> nat \<Rightarrow> nat"
  srng_layer_drop :: "real \<Rightarrow> nat"
  output_name :: "string option"

subsection \<open>make_consensus\<close>

definition reducible :: "tensor \<Rightarrow> nat \<Rightarrow> bool" where
  "reducible networks axis \<longleftrightarrow> proper networks \<and> axis < length (shape_of networks)"

definition make_consensus ::
  "layer_env \<Rightarrow> container \<Rightarrow> tensor \<Rightarrow> nat \<Rightarrow> error + (tensor \<times> container)" where
  "make_consensus env self networks axis =
    bind_err (attr_get self ''consensus'') (\<lambda>cns.
      if cns = AStr ''max'' then
        (if reducible networks axis then Inr (T_max axis networks, self) else Inl ValueError)
      else if cns = AStr ''min'' then
        (if reducible networks axis then Inr (T_min axis networks, self) else Inl ValueError)
      else if cns = AStr ''mean'' then
        (if reducible networks axis then Inr (T_mean axis networks, self) else Inl ValueError)
      else if cns = AStr ''flat'' then
        (if depth self = 1 then Inr (networks, self)
         else if axis = 2 then
           (if proper networks \<and> 3 \<le> length (shape_of networks) then Inr (flatten_nd 3 networks, self)
            else Inl ValueError)
         else
           (if proper networks \<and> 2 \<le> length (shape_of networks) then Inr (flatten_nd 2 networks, self)
            else Inl ValueError))
      else if cns = AStr ''sum'' then
        (if reducible networks axis then Inr (T_sum axis networks, self) else Inl ValueError)
      else if cns = AStr ''prod'' then
        (if reducible networks axis then Inr (T_prod axis networks, self) else Inl ValueError)
      else if cns = AStr ''var'' then
        (if reducible networks axis then Inr (T_var axis networks, self) else Inl ValueError)
      else if cns = AStr ''project'' then
        bind_err (bind_err (attr_get self ''n_out'') attr_int) (\<lambda>n_out.
          if n_out < 0 then Inl ValueError
          else
            bind_err (create_random_uniform_weights self (rng_unit env) (nat n_out) 1
                        (Some (real_of_int n_out + real (depth self) + 1)) None None None None) (\<lambda>w.
              case add_param self w [] of
                (p, self') \<Rightarrow> Inr (lib_tensordot env p networks 1 axis, self')))
      else if cns = AStr ''random'' then
        (let idx = rng_random_integers env 0 (depth self) in
         if axis > 3 then Inl AssertionError
         else if reducible networks axis \<and> idx < shape_of networks ! axis
         then Inr (take_axis axis idx networks, self)
         else Inl IndexError)
      else Inl AssertionError)"

subsection \<open>batch_norm\<close>




subsection \<open>make_output\<close>











section \<open>Recurrent units (NetworkRecurrentLayer.py)\<close>

text \<open>
  A matrix is the list of its rows; in the step functions a row belongs to one batch
  entry. A matrix with no rows has no columns. The tensor library raises when the
  shapes of two operands disagree; the step functions check the shapes first and
  return \<open>ShapeError\<close>, so that the element-wise operations below only meet operands
  of equal shape.
\<close>

type_synonym vec = "real list"
type_synonym mat = "real list list"

definition ncols :: "mat \<Rightarrow> nat" where
  "ncols A = (case A of [] \<Rightarrow> 0 | row # _ \<Rightarrow> length row)"

definition is_mat :: "mat \<Rightarrow> nat \<Rightarrow> nat \<Rightarrow> bool" where
  "is_mat A r c \<longleftrightarrow> length A = r \<and> ncols A = c \<and> list_all (\<lambda>row. length row = c) A"

definition madd :: "mat \<Rightarrow> mat \<Rightarrow> mat" where
  "madd A B = map2 (map2 (+)) A B"

definition mmul :: "mat \<Rightarrow> mat \<Rightarrow> mat" where
  "mmul A B = map2 (map2 (*)) A B"

definition mmap :: "(real \<Rightarrow> real) \<Rightarrow> mat \<Rightarrow> mat" where
  "mmap f A = map (map f) A"

text \<open>\<open>vec_mat m v B\<close>: the row vector \<open>v\<close> times the matrix \<open>B\<close> of \<open>m\<close> columns.\<close>

definition vec_mat :: "nat \<Rightarrow> vec \<Rightarrow> mat \<Rightarrow> vec" where
  "vec_mat m v B = foldr (\<lambda>(x, row) acc. map2 (+) (map (\<lambda>b. x * b) row) acc) (zip v B) (replicate m 0)"

definition dot :: "mat \<Rightarrow> mat \<Rightarrow> mat" where
  "dot A B = map (\<lambda>row. vec_mat (ncols B) row B) A"

definition outer :: "vec \<Rightarrow> vec \<Rightarrow> mat" where
  "outer v w = map (\<lambda>a. map (\<lambda>b. a * b) w) v"

text \<open>\<open>cols i j A\<close> is the slice \<open>A[:, i:j]\<close>.\<close>

definition cols :: "nat \<Rightarrow> nat \<Rightarrow> mat \<Rightarrow> mat" where
  "cols i j A = map (\<lambda>row. take (j - i) (drop i row)) A"

definition sigmoid :: "real \<Rightarrow> real" where
  "sigmoid x = 1 / (1 + exp (- x))"

text \<open>
  A recurrent transform (RecurrentTransform.py is not part of these sources): the number
  of its state variables and its \<open>step\<close>, which takes the state variables in sorted
  order and \<open>y_p\<close> and returns \<open>z_r\<close> and the updated state variables in sorted order.
\<close>

record recurrent_transform =
  n_state_vars :: nat
  rt_step :: "mat list \<Rightarrow> mat \<Rightarrow> mat \<times> mat list"

subsection \<open>VANILLA.step\<close>

text \<open>
  A step function receives \<open>i_t\<close>, \<open>x_t\<close>, \<open>z_t\<close> and then, as a list, the remaining
  positional arguments. \<open>VANILLA.step(self, i_t, x_t, z_t, z_p, h_p)\<close> takes exactly
  two of them; any other number is Python's \<open>TypeError\<close>.
\<close>

definition VANILLA_step :: "vec \<Rightarrow> mat \<Rightarrow> mat \<Rightarrow> mat list \<Rightarrow> error + mat list" where
  "VANILLA_step i_t x_t z_t args =
    (case args of
       [z_p, h_p] \<Rightarrow>
         if map length z_t \<noteq> map length z_p then Inl ShapeError
         else Inr [mmap tanh (madd z_t z_p)]
     | _ \<Rightarrow> Inl TypeError)"

subsection \<open>LSTME.step\<close>

definition LSTME_shapes :: "nat \<Rightarrow> mat option \<Rightarrow> mat \<Rightarrow> vec \<Rightarrow> mat \<Rightarrow> mat \<Rightarrow> mat \<Rightarrow> bool" where
  "LSTME_shapes n_units z_r W_re i_t z_t y_p c_p \<longleftrightarrow>
    (let B = length z_t; w = ncols z_t; partition = w div 4
     in is_mat z_t B w
        \<and> (case z_r of None \<Rightarrow> True | Some zr \<Rightarrow> is_mat zr B w)
        \<and> is_mat y_p B (length W_re) \<and> is_mat W_re (length W_re) w
        \<and> is_mat c_p B partition
        \<and> length i_t = B \<and> n_units = partition)"

text \<open>
  \<open>LSTME.step(self, i_t, x_t, z_t, y_p, c_p, *other_args)\<close>. \<open>rt\<close> is
  \<open>self.recurrent_transform\<close> when it is true, \<open>W_re\<close> is \<open>self.W_re\<close>, and
  \<open>o_output\<close> and \<open>o_h\<close> are the vectors of \<open>n_units\<close> ones of the constructor.
  \<open>LSTME_transform\<close> is the block under \<open>if self.recurrent_transform\<close>: it gives
  \<open>z_r\<close>, if any, and the other outputs.
\<close>

definition LSTME_transform :: "recurrent_transform option \<Rightarrow> mat list \<Rightarrow> mat \<Rightarrow> mat option \<times> mat list" where
  "LSTME_transform rt other_args y_p =
    (case rt of
       None \<Rightarrow> (None, [])
     | Some tr \<Rightarrow>
        (case rt_step tr (take (n_state_vars tr) other_args) y_p of
           (z_r, r_updates) \<Rightarrow> (Some z_r, r_updates)))"

definition LSTME_step ::
  "nat \<Rightarrow> recurrent_transform option \<Rightarrow> mat \<Rightarrow> vec \<Rightarrow> mat \<Rightarrow> mat \<Rightarrow> mat list \<Rightarrow> error + mat list" where
  "LSTME_step n_units rt W_re i_t x_t z_t args =
    (case args of
       y_p # c_p # other_args \<Rightarrow>
        (case LSTME_transform rt other_args y_p of
           (z_r, other_outputs) \<Rightarrow>
            if \<not> LSTME_shapes n_units z_r W_re i_t z_t y_p c_p then Inl ShapeError
            else
             (let z1 = (case z_r of None \<Rightarrow> z_t | Some zr \<Rightarrow> madd z_t zr);
                  z2 = madd z1 (dot y_p W_re);
                  partition = ncols z2 div 4;
                  ingate = mmap sigmoid (cols 0 partition z2);
                  forgetgate = mmap sigmoid (cols partition (2 * partition) z2);
                  outgate = mmap sigmoid (cols (2 * partition) (3 * partition) z2);
                  input = mmap tanh (cols (3 * partition) (4 * partition) z2);
                  c_t = madd (mmul forgetgate c_p) (mmul ingate input);
                  y_t = mmul outgate (mmap tanh c_t);
                  i_output = outer i_t (replicate n_units 1);
                  i_h = outer i_t (replicate n_units 1)
              in Inr ([mmul y_t i_output, madd (mmul c_t i_h) (mmul c_p (mmap (\<lambda>v. 1 - v) i_h))]
                      @ other_outputs)))
     | _ \<Rightarrow> Inl TypeError)"

subsection \<open>Unit.scan\<close>

text \<open>
  The scan of the tensor library calls the step function once per time step with the
  slices of the sequences, then the previous outputs, then the non-sequences, and
  expects as many outputs as \<open>outputs_info\<close> has entries. It runs as long as the
  shortest sequence. The result lists, per time step, the outputs of that step.
\<close>

fun scan_loop ::
  "(vec \<Rightarrow> mat \<Rightarrow> mat \<Rightarrow> mat list \<Rightarrow> error + mat list) \<Rightarrow> (vec \<times> mat \<times> mat) list \<Rightarrow> mat list \<Rightarrow> mat list
     \<Rightarrow> error + mat list list" where
  "scan_loop step [] state non_sequences = Inr []"
| "scan_loop step ((i_t, x_t, z_t) # rest) state non_sequences =
    (case step i_t x_t z_t (state @ non_sequences) of
       Inl e \<Rightarrow> Inl e
     | Inr outs \<Rightarrow>
        if length outs \<noteq> length state then Inl ValueError
        else (case scan_loop step rest outs non_sequences of
                Inl e \<Rightarrow> Inl e
              | Inr later \<Rightarrow> Inr (outs # later)))"

text \<open>\<open>T.concatenate(x, axis=-1)\<close> on tensors of shape (time, batch, dim).\<close>

fun concatenate_last :: "mat list list \<Rightarrow> error + mat list" where
  "concatenate_last [] = Inl ValueError"
| "concatenate_last [a] = Inr a"
| "concatenate_last (a # rest) =
    (case concatenate_last rest of
       Inl e \<Rightarrow> Inl e
     | Inr b \<Rightarrow>
        if map length a \<noteq> map length b then Inl ShapeError
        else Inr (map2 (map2 (@)) a b))"

definition Unit_scan ::
  "(vec \<Rightarrow> mat \<Rightarrow> mat \<Rightarrow> mat list \<Rightarrow> error + mat list) \<Rightarrow> mat list list \<Rightarrow> mat list \<Rightarrow> mat list \<Rightarrow> vec list
     \<Rightarrow> mat list \<Rightarrow> bool \<Rightarrow> error + mat list list" where
  "Unit_scan step x z non_sequences i outputs_info go_backwards =
    (case (if x = [] then Inr z else concatenate_last x) of
       Inl e \<Rightarrow> Inl e
     | Inr xc \<Rightarrow>
        (let sequences = (if go_backwards then zip (rev i) (zip (rev xc) (rev z)) else zip i (zip xc z))
         in scan_loop step sequences outputs_info non_sequences))"

text \<open>The recurrence \<open>h_t = tanh (z_t + h_{t-1})\<close>, written out for comparison.\<close>

fun tanh_recurrence :: "mat list \<Rightarrow> mat \<Rightarrow> mat list" where
  "tanh_recurrence [] h_p = []"
| "tanh_recurrence (z_t # zs) h_p = mmap tanh (madd z_t h_p) # tanh_recurrence zs (mmap tanh (madd z_t h_p))"

section \<open>Example values\<close>

text \<open>Small concrete layers, files and generators on which the theorems are instantiated.\<close>

definition example_var :: "string \<Rightarrow> nat list \<Rightarrow> fl list \<Rightarrow> shared_var" where
  "example_var nm sh vs = \<lparr>var_name = Some nm, var_value = \<lparr>shape = sh, data = vs\<rparr>\<rparr>"

definition example_layer :: "string \<Rightarrow> (string \<times> shared_var) list \<Rightarrow> (string \<times> attr) list \<Rightarrow> container" where
  "example_layer nm ps as =
    \<lparr>name = nm, layer_class = ''hidden'', params = ps, attrs = as, depth = 1, train_flag = False,
     network = None, substitute_param_expr = None\<rparr>"

definition example_file :: "string \<Rightarrow> (string \<times> ndarray) list \<Rightarrow> (string \<times> group) list" where
  "example_file nm ds = [(nm, \<lparr>g_class = Some ''hidden'', datasets = ds, g_attrs = []\<rparr>)]"

definition example_classes :: "string \<Rightarrow> bool \<Rightarrow> error + nat option" where
  "example_classes nm raise_exception =
    (if nm = ''hidden'' then Inr (Some 0)
     else if raise_exception then Inl LookupError else Inr None)"


definition example_env :: "tensor \<times> int \<Rightarrow> layer_env" where
  "example_env src =
    \<lparr>concat_sources = src,
     create_forward_weights = (\<lambda>n m nm. \<lparr>var_name = Some nm, var_value = \<lparr>shape = [nat n, nat m], data = replicate (nat n * nat m) (Fin 0)\<rparr>\<rparr>),
     lib_dot = (\<lambda>t w. t), lib_tensordot = (\<lambda>w t a b. t), lib_mul_var = (\<lambda>t w. t), lib_add_var = (\<lambda>t w. t),
     rng_unit = (\<lambda>k. 1 / 2), rng_random_integers = (\<lambda>low high. low), srng_layer_drop = (\<lambda>p. 0),
     output_name = None\<rparr>"

definition example_attrs :: "string \<Rightarrow> real \<Rightarrow> bool \<Rightarrow> (string \<times> attr) list" where
  "example_attrs cns layer_drop sparse =
    [(''consensus'', AStr cns), (''n_out'', AInt 2), (''batch_norm'', ABool False), (''residual'', ABool False),
     (''layer_drop'', AFloat layer_drop), (''sparse'', ABool sparse), (''sparse_filtering'', ABool False)]"

section \<open>Parameter substitution leaves the parameter map alone\<close>

lemma add_param_cases:
  "add_param self param nm =
    (case network_substitute self (param_name self param nm) param of
       Some s \<Rightarrow> (s, self)
     | None \<Rightarrow>
        (case expr_substitute self (param_name self param nm) param of
           Some s \<Rightarrow> (s, self)
         | None \<Rightarrow> (param, self\<lparr>params := AList.update (param_name self param nm) param (params self)\<rparr>)))"
  by (simp add: add_param_def Let_def)

text \<open>
  C10. When the network-level policy, or failing that the expression-level policy,
  returns a substitute, \<open>add_param\<close> returns the substitute and the container is the
  one it was given: the parameter map, and with it \<open>num_params\<close>, \<open>save\<close> and
  \<open>get_params_vars\<close>, are unchanged. When neither policy returns a substitute, the
  parameter itself is returned and is stored in the map under its resolved name.
\<close>

theorem add_param_substitute_not_registered:
  fixes self :: container
  defines "nm' \<equiv> \<lambda>param nm. param_name self param nm"
  shows "(network_substitute self (nm' param nm) param = Some s
            \<or> (network_substitute self (nm' param nm) param = None
                \<and> expr_substitute self (nm' param nm) param = Some s)
          \<longrightarrow> fst (add_param self param nm) = s
              \<and> snd (add_param self param nm) = self
              \<and> params (snd (add_param self param nm)) = params self
              \<and> num_params (snd (add_param self param nm)) = num_params self
              \<and> save json_dumps (snd (add_param self param nm)) head = save json_dumps self head
              \<and> get_params_vars (snd (add_param self param nm)) = get_params_vars self)
        \<and> (network_substitute self (nm' param nm) param = None
            \<and> expr_substitute self (nm' param nm) param = None
          \<longrightarrow> fst (add_param self param nm) = param
              \<and> params (snd (add_param self param nm)) = AList.update (nm' param nm) param (params self)
              \<and> map_of (params (snd (add_param self param nm))) (nm' param nm) = Some param)
        \<and> (params (snd (add_param self param nm)) \<noteq> params self
          \<longrightarrow> network_substitute self (nm' param nm) param = None
              \<and> expr_substitute self (nm' param nm) param = None)"
  unfolding nm'_def
  by (auto simp: add_param_cases update_Some_unfold split: option.splits)


theorem add_param_substitute_not_registered_witness:
  "network_substitute
      ((example_layer ''hidden_1'' [] [])\<lparr>network := Some (\<lambda>ln pn p. if pn = ''W_tied'' then Some (example_var ''W_shared'' [2] [Fin 0, Fin 0]) else None)\<rparr>)
      ''W_tied'' (example_var ''W_tied'' [2] [Fin 1, Fin 2]) = Some (example_var ''W_shared'' [2] [Fin 0, Fin 0])
   \<and> add_param
      ((example_layer ''hidden_1'' [] [])\<lparr>network := Some (\<lambda>ln pn p. if pn = ''W_tied'' then Some (example_var ''W_shared'' [2] [Fin 0, Fin 0]) else None)\<rparr>)
      (example_var ''W_tied'' [2] [Fin 1, Fin 2]) []
     = (example_var ''W_shared'' [2] [Fin 0, Fin 0],
        (example_layer ''hidden_1'' [] [])\<lparr>network := Some (\<lambda>ln pn p. if pn = ''W_tied'' then Some (example_var ''W_shared'' [2] [Fin 0, Fin 0]) else None)\<rparr>)
   \<and> fst (add_param (example_layer ''hidden_1'' [] []) (example_var ''W_own'' [2] [Fin 1, Fin 2]) []) = example_var ''W_own'' [2] [Fin 1, Fin 2]
   \<and> params (snd (add_param (example_layer ''hidden_1'' [] []) (example_var ''W_own'' [2] [Fin 1, Fin 2]) []))
       = [(''W_own'', example_var ''W_own'' [2] [Fin 1, Fin 2])]
   \<and> num_params (snd (add_param (example_layer ''hidden_1'' [] []) (example_var ''W_own'' [2] [Fin 1, Fin 2]) [])) = 2"
proof -
  let ?net = "\<lambda>ln pn p. if pn = ''W_tied'' then Some (example_var ''W_shared'' [2] [Fin 0, Fin 0]) else None"
  let ?self = "(example_layer ''hidden_1'' [] [])\<lparr>network := Some ?net\<rparr>"
  let ?p = "example_var ''W_tied'' [2] [Fin 1, Fin 2]"
  let ?q = "example_var ''W_own'' [2] [Fin 1, Fin 2]"
  have n1: "param_name ?self ?p [] = ''W_tied''"
    by (simp add: param_name_def example_var_def)
  have s1: "network_substitute ?self ''W_tied'' ?p = Some (example_var ''W_shared'' [2] [Fin 0, Fin 0])"
    by (simp add: network_substitute_def)
  have n2: "param_name (example_layer ''hidden_1'' [] []) ?q [] = ''W_own''"
    by (simp add: param_name_def example_var_def)
  have s2: "network_substitute (example_layer ''hidden_1'' [] []) ''W_own'' ?q = None"
    "expr_substitute (example_layer ''hidden_1'' [] []) ''W_own'' ?q = None"
    by (simp_all add: network_substitute_def expr_substitute_def example_layer_def)
  have a: "fst (add_param ?self ?p []) = example_var ''W_shared'' [2] [Fin 0, Fin 0] \<and> snd (add_param ?self ?p []) = ?self"
    using add_param_substitute_not_registered[of ?self ?p "[]" "example_var ''W_shared'' [2] [Fin 0, Fin 0]"] s1
    unfolding n1 by blast
  have b: "fst (add_param (example_layer ''hidden_1'' [] []) ?q []) = ?q
      \<and> params (snd (add_param (example_layer ''hidden_1'' [] []) ?q [])) = AList.update ''W_own'' ?q (params (example_layer ''hidden_1'' [] []))"
    using add_param_substitute_not_registered[of "example_layer ''hidden_1'' [] []" ?q "[]"] s2
    unfolding n2 by blast
  have c: "AList.update ''W_own'' ?q (params (example_layer ''hidden_1'' [] [])) = [(''W_own'', ?q)]"
    by (simp add: example_layer_def)
  have d: "num_params (snd (add_param (example_layer ''hidden_1'' [] []) ?q [])) = 2"
    using b c by (simp add: num_params_def example_var_def)
  show ?thesis using s1 a b c d by (simp add: prod_eq_iff)
qed

section \<open>Loading parameters\<close>

lemma load_loop_frame:
  "q \<notin> fst ` set es \<Longrightarrow> map_of (fst (snd (load_loop lname es ps lg))) q = map_of ps q"
proof (induction es arbitrary: ps lg)
  case Nil then show ?case by simp
next
  case (Cons e es)
  obtain p a where e: "e = (p, a)" by (cases e)
  have pq: "p \<noteq> q" and rest: "q \<notin> fst ` set es" using Cons.prems e by auto
  show ?case using Cons.IH[OF rest] pq
    by (auto simp: e update_conv' split: option.splits)
qed

lemma load_loop_log_grows:
  "set lg \<subseteq> set (snd (snd (load_loop lname es ps lg)))"
proof (induction es arbitrary: ps lg)
  case Nil then show ?case by simp
next
  case (Cons e es)
  obtain p a where e: "e = (p, a)" by (cases e)
  show ?case
  proof (cases "map_of ps p")
    case None
    have "set (lg @ [V4 (''unable to match parameter '' @ p @ '' in '' @ lname)])
            \<subseteq> set (snd (snd (load_loop lname es ps (lg @ [V4 (''unable to match parameter '' @ p @ '' in '' @ lname)]))))"
      by (rule Cons.IH)
    then show ?thesis using None by (auto simp: e)
  next
    case (Some v)
    have "set lg \<subseteq> set (snd (snd (load_loop lname es (AList.update p (v\<lparr>var_value := a\<rparr>) ps) lg)))"
      by (rule Cons.IH)
    then show ?thesis using Some by (auto simp: e)
  qed
qed

lemma load_loop_rejects:
  assumes "distinct (map fst es)" "(q, a) \<in> set es" "map_of ps q = Some v"
    and "shape (var_value v) \<noteq> shape a \<or> has_nonfinite a"
  shows "fst (load_loop lname es ps lg) = Some AssertionError
       \<and> map_of (fst (snd (load_loop lname es ps lg))) q = Some v"
  using assms(1,2,3)
proof (induction es arbitrary: ps lg)
  case Nil then show ?case by simp
next
  case (Cons e es)
  obtain p b where e: "e = (p, b)" by (cases e)
  show ?case
  proof (cases "p = q")
    case True
    then have "b = a" using Cons.prems(1,2) e by (auto simp: image_iff)
    then show ?thesis using True e Cons.prems(3) assms(4) by auto
  next
    case False
    then have mem: "(q, a) \<in> set es" using Cons.prems(2) e by auto
    have d: "distinct (map fst es)" using Cons.prems(1) by simp
    show ?thesis
    proof (cases "map_of ps p")
      case None
      then show ?thesis using Cons.IH[OF d mem Cons.prems(3)] by (simp add: e)
    next
      case (Some w)
      have "map_of (AList.update p (w\<lparr>var_value := b\<rparr>) ps) q = Some v"
        using False Cons.prems(3) by (simp add: update_conv')
      from Cons.IH[OF d mem this] show ?thesis
        using Some Cons.prems(3) by (simp add: e)
    qed
  qed
qed

lemma load_loop_accepts:
  assumes "distinct (map fst es)"
    and "\<forall>(q, a)\<in>set es. \<forall>v. map_of ps q = Some v \<longrightarrow> shape (var_value v) = shape a \<and> \<not> has_nonfinite a"
  shows "fst (load_loop lname es ps lg) = None
       \<and> (\<forall>(q, a)\<in>set es. \<forall>v. map_of ps q = Some v
             \<longrightarrow> map_of (fst (snd (load_loop lname es ps lg))) q = Some (v\<lparr>var_value := a\<rparr>))"
  using assms
proof (induction es arbitrary: ps lg)
  case Nil then show ?case by simp
next
  case (Cons e es)
  obtain p b where e: "e = (p, b)" by (cases e)
  have d: "distinct (map fst es)" and pn: "p \<notin> fst ` set es" using Cons.prems(1) e by auto
  show ?case
  proof (cases "map_of ps p")
    case None
    have v: "\<forall>(q, a)\<in>set es. \<forall>v. map_of ps q = Some v \<longrightarrow> shape (var_value v) = shape a \<and> \<not> has_nonfinite a"
      using Cons.prems(2) by auto
    from Cons.IH[OF d v] show ?thesis using None by (auto simp: e)
  next
    case (Some w)
    let ?ps = "AList.update p (w\<lparr>var_value := b\<rparr>) ps"
    have ok: "shape (var_value w) = shape b" "\<not> has_nonfinite b"
      using Cons.prems(2) Some e by auto
    have same: "\<And>q. q \<in> fst ` set es \<Longrightarrow> map_of ?ps q = map_of ps q"
      using pn by (auto simp: update_conv')
    have v: "\<forall>(q, a)\<in>set es. \<forall>v. map_of ?ps q = Some v \<longrightarrow> shape (var_value v) = shape a \<and> \<not> has_nonfinite a"
    proof (clarify)
      fix q a v assume m: "(q, a) \<in> set es" and "map_of ?ps q = Some v"
      moreover have "q \<in> fst ` set es" using m by (force simp: image_iff)
      ultimately have "map_of ps q = Some v" using same by simp
      then show "shape (var_value v) = shape a \<and> \<not> has_nonfinite a" using Cons.prems(2) m by auto
    qed
    have step: "load_loop lname (e # es) ps lg = load_loop lname es ?ps lg"
      using Some ok by (simp add: e)
    have hd: "map_of (fst (snd (load_loop lname es ?ps lg))) p = Some (w\<lparr>var_value := b\<rparr>)"
      using load_loop_frame[OF pn, of lname ?ps lg] by (simp add: update_conv')
    have tl: "\<forall>(q, a)\<in>set es. \<forall>v. map_of ps q = Some v
             \<longrightarrow> map_of (fst (snd (load_loop lname es ?ps lg))) q = Some (v\<lparr>var_value := a\<rparr>)"
    proof (clarify)
      fix q a v assume m: "(q, a) \<in> set es" and mv: "map_of ps q = Some v"
      have "q \<in> fst ` set es" using m by (force simp: image_iff)
      then have "map_of ?ps q = Some v" using same mv by simp
      then show "map_of (fst (snd (load_loop lname es ?ps lg))) q = Some (v\<lparr>var_value := a\<rparr>)"
        using Cons.IH[OF d v, of lg] m by auto
    qed
    show ?thesis unfolding step using Cons.IH[OF d v, of lg] hd tl Some by (auto simp: e)
  qed
qed

text \<open>
  C4. When the layer's group holds, under a declared parameter name, an array that
  contains a NaN or an infinity, or whose shape differs from the declared parameter's,
  \<open>load\<close> ends with an error and that parameter keeps its value: the array is never
  assigned. (The names of a group are distinct, as in the file format.)
\<close>

theorem load_aborts_on_corrupt_or_misshaped:
  assumes "map_of head (name self) = Some grp"
    and "distinct (map fst (datasets grp))"
    and "(q, a) \<in> set (datasets grp)"
    and "map_of (params self) q = Some v"
    and "shape (var_value v) \<noteq> shape a \<or> has_nonfinite a"
  shows "fst (load get_layer_class self head) \<noteq> None
       \<and> map_of (params (fst (snd (load get_layer_class self head)))) q = Some v"
proof (cases "load_check_class get_layer_class self grp")
  case (Inl e)
  then show ?thesis using assms(1,4) by (simp add: load_def)
next
  case (Inr lg0)
  let ?r = "load_loop (name self) (datasets grp) (params self) (lg0 @ load_missing self grp)"
  have "fst ?r = Some AssertionError \<and> map_of (fst (snd ?r)) q = Some v"
    by (rule load_loop_rejects[OF assms(2,3,4,5)])
  moreover have "load get_layer_class self head = (fst ?r, self\<lparr>params := fst (snd ?r)\<rparr>, snd (snd ?r))"
    using assms(1) Inr by (simp add: load_def split: prod.splits)
  ultimately show ?thesis by simp
qed

theorem load_aborts_on_corrupt_or_misshaped_witness:
  "has_nonfinite \<lparr>shape = [2], data = [Fin 1, NaN]\<rparr>
   \<and> fst (load example_classes
          (example_layer ''hidden_1'' [(''W'', example_var ''W'' [2] [Fin 0, Fin 0])] [])
          (example_file ''hidden_1'' [(''W'', \<lparr>shape = [2], data = [Fin 1, NaN]\<rparr>)])) \<noteq> None
   \<and> map_of (params (fst (snd (load example_classes
          (example_layer ''hidden_1'' [(''W'', example_var ''W'' [2] [Fin 0, Fin 0])] [])
          (example_file ''hidden_1'' [(''W'', \<lparr>shape = [2], data = [Fin 1, NaN]\<rparr>)]))))) ''W''
       = Some (example_var ''W'' [2] [Fin 0, Fin 0])"
proof -
  let ?self = "example_layer ''hidden_1'' [(''W'', example_var ''W'' [2] [Fin 0, Fin 0])] []"
  let ?a = "\<lparr>shape = [2], data = [Fin 1, NaN]\<rparr>"
  let ?grp = "\<lparr>g_class = Some ''hidden'', datasets = [(''W'', ?a)], g_attrs = []\<rparr>"
  have h1: "map_of (example_file ''hidden_1'' [(''W'', ?a)]) (name ?self) = Some ?grp"
    by (simp add: example_file_def example_layer_def)
  have h2: "distinct (map fst (datasets ?grp))" by simp
  have h3: "(''W'', ?a) \<in> set (datasets ?grp)" by simp
  have h4: "map_of (params ?self) ''W'' = Some (example_var ''W'' [2] [Fin 0, Fin 0])"
    by (simp add: example_layer_def)
  have h5: "has_nonfinite ?a" by (simp add: has_nonfinite_def)
  then have h5': "shape (var_value (example_var ''W'' [2] [Fin 0, Fin 0])) \<noteq> shape ?a \<or> has_nonfinite ?a" by simp
  show ?thesis
    using h5 load_aborts_on_corrupt_or_misshaped[OF h1 h2 h3 h4 h5', of example_classes] by simp
qed

text \<open>
  C3 (amended). When the layer's group is found, its class attribute is read and
  compared without an error, and a declared parameter name is absent from the group,
  \<open>load\<close> logs the warning for that name and leaves the parameter at its value. If
  moreover every stored array under a declared name has the declared shape and only
  finite values, \<open>load\<close> ends without an error and has assigned every such array.
\<close>

theorem load_missing_param_tolerated:
  assumes "map_of head (name self) = Some grp"
    and "distinct (map fst (datasets grp))"
    and "load_check_class get_layer_class self grp = Inr lg0"
    and "p \<in> fst ` set (params self)"
    and "p \<notin> fst ` set (datasets grp)"
  shows "missing_warning (name self) p \<in> set (snd (snd (load get_layer_class self head)))
       \<and> map_of (params (fst (snd (load get_layer_class self head)))) p = map_of (params self) p
       \<and> ((\<forall>(q, a)\<in>set (datasets grp). \<forall>v. map_of (params self) q = Some v
               \<longrightarrow> shape (var_value v) = shape a \<and> \<not> has_nonfinite a)
           \<longrightarrow> fst (load get_layer_class self head) = None
               \<and> (\<forall>(q, a)\<in>set (datasets grp). \<forall>v. map_of (params self) q = Some v
                     \<longrightarrow> map_of (params (fst (snd (load get_layer_class self head)))) q
                           = Some (v\<lparr>var_value := a\<rparr>)))"
proof -
  let ?lg = "lg0 @ load_missing self grp"
  let ?r = "load_loop (name self) (datasets grp) (params self) ?lg"
  have ld: "load get_layer_class self head = (fst ?r, self\<lparr>params := fst (snd ?r)\<rparr>, snd (snd ?r))"
    using assms(1,3) by (simp add: load_def split: prod.splits)
  have "map_of (datasets grp) p = None" using assms(5) by (simp add: map_of_eq_None_iff)
  then have "missing_warning (name self) p \<in> set (load_missing self grp)"
    using assms(4) by (auto simp: load_missing_def)
  then have w: "missing_warning (name self) p \<in> set (snd (snd ?r))"
    using load_loop_log_grows[of ?lg "name self" "datasets grp" "params self"] by auto
  have f: "map_of (fst (snd ?r)) p = map_of (params self) p"
    by (rule load_loop_frame[OF assms(5)])
  show ?thesis unfolding ld using w f load_loop_accepts[OF assms(2), of "params self" "name self" ?lg]
    by simp
qed

theorem load_missing_param_tolerated_witness:
  "missing_warning ''hidden_1'' ''b''
        \<in> set (snd (snd (load example_classes
      (example_layer ''hidden_1'' [(''W'', example_var ''W'' [2] [Fin 0, Fin 0]), (''b'', example_var ''b'' [1] [Fin 0])] [])
      (example_file ''hidden_1'' [(''W'', \<lparr>shape = [2], data = [Fin 1, Fin 2]\<rparr>)]))))
   \<and> fst (load example_classes
      (example_layer ''hidden_1'' [(''W'', example_var ''W'' [2] [Fin 0, Fin 0]), (''b'', example_var ''b'' [1] [Fin 0])] [])
      (example_file ''hidden_1'' [(''W'', \<lparr>shape = [2], data = [Fin 1, Fin 2]\<rparr>)])) = None
   \<and> map_of (params (fst (snd (load example_classes
      (example_layer ''hidden_1'' [(''W'', example_var ''W'' [2] [Fin 0, Fin 0]), (''b'', example_var ''b'' [1] [Fin 0])] [])
      (example_file ''hidden_1'' [(''W'', \<lparr>shape = [2], data = [Fin 1, Fin 2]\<rparr>)]))))) ''b''
       = Some (example_var ''b'' [1] [Fin 0])
   \<and> map_of (params (fst (snd (load example_classes
      (example_layer ''hidden_1'' [(''W'', example_var ''W'' [2] [Fin 0, Fin 0]), (''b'', example_var ''b'' [1] [Fin 0])] [])
      (example_file ''hidden_1'' [(''W'', \<lparr>shape = [2], data = [Fin 1, Fin 2]\<rparr>)]))))) ''W''
       = Some (example_var ''W'' [2] [Fin 1, Fin 2])"
proof -
  let ?self = "example_layer ''hidden_1'' [(''W'', example_var ''W'' [2] [Fin 0, Fin 0]), (''b'', example_var ''b'' [1] [Fin 0])] []"
  let ?a = "\<lparr>shape = [2], data = [Fin 1, Fin 2]\<rparr>"
  let ?grp = "\<lparr>g_class = Some ''hidden'', datasets = [(''W'', ?a)], g_attrs = []\<rparr>"
  let ?head = "example_file ''hidden_1'' [(''W'', ?a)]"
  have h1: "map_of ?head (name ?self) = Some ?grp"
    by (simp add: example_file_def example_layer_def)
  have h2: "distinct (map fst (datasets ?grp))" by simp
  have h3: "load_check_class example_classes ?self ?grp = Inr []"
    by (simp add: load_check_class_def example_layer_def)
  have h4: "''b'' \<in> fst ` set (params ?self)" by (simp add: example_layer_def)
  have h5: "''b'' \<notin> fst ` set (datasets ?grp)" by simp
  have valid: "\<forall>(q, a)\<in>set (datasets ?grp). \<forall>v. map_of (params ?self) q = Some v
                 \<longrightarrow> shape (var_value v) = shape a \<and> \<not> has_nonfinite a"
    by (simp add: example_layer_def example_var_def has_nonfinite_def)
  have pW: "map_of (params ?self) ''W'' = Some (example_var ''W'' [2] [Fin 0, Fin 0])"
    and pb: "map_of (params ?self) ''b'' = Some (example_var ''b'' [1] [Fin 0])"
    and nm: "name ?self = ''hidden_1''"
    by (simp_all add: example_layer_def)
  note t = load_missing_param_tolerated[OF h1 h2 h3 h4 h5]
  have w: "missing_warning ''hidden_1'' ''b'' \<in> set (snd (snd (load example_classes ?self ?head)))"
    using t nm by simp
  have kept: "map_of (params (fst (snd (load example_classes ?self ?head)))) ''b'' = Some (example_var ''b'' [1] [Fin 0])"
    using t pb by simp
  have ok: "fst (load example_classes ?self ?head) = None"
    using t valid by blast
  have "\<forall>(q, a)\<in>set (datasets ?grp). \<forall>v. map_of (params ?self) q = Some v
          \<longrightarrow> map_of (params (fst (snd (load example_classes ?self ?head)))) q = Some (v\<lparr>var_value := a\<rparr>)"
    using t valid by blast
  then have loaded: "map_of (params (fst (snd (load example_classes ?self ?head)))) ''W'' = Some (example_var ''W'' [2] [Fin 1, Fin 2])"
    using pW by (simp add: example_var_def)
  show ?thesis using w ok kept loaded by simp
qed

text \<open>
  C3 as stated fails: here \<open>b\<close> is the missing name, and \<open>W_b\<close> is present with a
  matching shape, yet it is not loaded, because the assertion on \<open>W_a\<close>, which comes
  first in the group, has ended the load.
\<close>

theorem load_later_parameter_not_loaded_counterexample:
  "load example_classes
      (example_layer ''hidden_1''
         [(''W_a'', example_var ''W_a'' [2] [Fin 0, Fin 0]), (''W_b'', example_var ''W_b'' [2] [Fin 0, Fin 0]),
          (''b'', example_var ''b'' [1] [Fin 0])] [])
      (example_file ''hidden_1''
         [(''W_a'', \<lparr>shape = [3], data = [Fin 1, Fin 2, Fin 3]\<rparr>), (''W_b'', \<lparr>shape = [2], data = [Fin 4, Fin 5]\<rparr>)])
    = (Some AssertionError,
       example_layer ''hidden_1''
         [(''W_a'', example_var ''W_a'' [2] [Fin 0, Fin 0]), (''W_b'', example_var ''W_b'' [2] [Fin 0, Fin 0]),
          (''b'', example_var ''b'' [1] [Fin 0])] [],
       [missing_warning ''hidden_1'' ''b''])"
  by (simp add: load_def example_file_def example_layer_def load_check_class_def example_classes_def
        load_missing_def example_var_def has_nonfinite_def)

section \<open>Dropout masks and mass\<close>




section \<open>Uniform weight initialisation\<close>




section \<open>The source list in to_json\<close>

lemma match_here_digits:
  assumes "ds \<noteq> []" "list_all is_digit ds" "list_all (\<lambda>c. \<not> is_digit c) suf"
  shows "match_here (ds @ suf) = Some (ds, suf)"
proof -
  have nd: "\<forall>x\<in>set suf. \<not> is_digit x" using assms(3) by (simp add: list_all_iff)
  have d: "\<forall>x\<in>set ds. is_digit x" using assms(2) by (simp add: list_all_iff)
  have t: "takeWhile is_digit (ds @ suf) = ds"
    using nd d by (cases suf) (auto simp: takeWhile_append2 takeWhile_eq_all_conv)
  have dr: "dropWhile is_digit (ds @ suf) = suf"
    using nd d by (cases suf) (auto simp: dropWhile_append2)
  show ?thesis using assms t dr by (simp add: match_here_def)
qed

lemma match_here_blocked:
  assumes "\<not> is_digit x" "ds \<noteq> []" "list_all is_digit ds"
  shows "match_here ((t @ [x]) @ ds @ suf) = None"
proof -
  obtain d ds' where ds: "ds = d # ds'" using assms(2) by (cases ds) auto
  have dd: "is_digit d" using assms(3) ds by simp
  have "dropWhile is_digit ((t @ [x]) @ ds @ suf) = dropWhile is_digit t @ x # ds @ suf"
    using assms(1) by (simp add: dropWhile_append3)
  then have "\<not> list_all (\<lambda>c. \<not> is_digit c) (dropWhile is_digit ((t @ [x]) @ ds @ suf))"
    using dd ds by simp
  then show ?thesis by (simp add: match_here_def Let_def)
qed

lemma re_search_last_run:
  assumes "\<forall>c\<in>set pre. c \<noteq> CHR 0x0A"
    and "pre = [] \<or> \<not> is_digit (last pre)"
    and "ds \<noteq> []" "list_all is_digit ds" "list_all (\<lambda>c. \<not> is_digit c) suf"
  shows "re_search acc (pre @ ds @ suf) = Some (acc @ pre, ds, suf)"
  using assms(1,2)
proof (induction pre arbitrary: acc)
  case Nil
  obtain d ds' where ds: "ds = d # ds'" using assms(3) by (cases ds) auto
  have "match_here (ds @ suf) = Some (ds, suf)" by (rule match_here_digits[OF assms(3,4,5)])
  then show ?case using ds by simp
next
  case (Cons c pre)
  have nl: "\<not> is_digit (last (c # pre))" using Cons.prems(2) by simp
  obtain t x where tx: "c # pre = t @ [x]" by (metis append_butlast_last_id list.distinct(1))
  then have "\<not> is_digit x" using nl by (metis last_snoc)
  then have "match_here ((c # pre) @ ds @ suf) = None"
    unfolding tx by (rule match_here_blocked[OF _ assms(3,4)])
  moreover have "c \<noteq> CHR 0x0A" using Cons.prems(1) by simp
  moreover have "re_search (acc @ [c]) (pre @ ds @ suf) = Some ((acc @ [c]) @ pre, ds, suf)"
    using Cons.prems nl by (intro Cons.IH) (auto split: if_splits)
  ultimately show ?case by simp
qed

lemma re_search_no_digit:
  "\<forall>c\<in>set s. \<not> is_digit c \<Longrightarrow> re_search acc s = None"
proof (induction s arbitrary: acc)
  case Nil then show ?case by simp
next
  case (Cons c cs)
  have "match_here (c # cs) = None" using Cons.prems by (simp add: match_here_def)
  then show ?case using Cons by simp
qed

lemma map_of_numpy_bool:
  "map_of (attrs self) k = Some (AStr s)
    \<Longrightarrow> map_of (map (\<lambda>(k, v). (k, case v of ANumpyBool b \<Rightarrow> ABool b | _ \<Rightarrow> v)) (attrs self)) k = Some (AStr s)"
  by (induction "attrs self" arbitrary: self) (auto simp: map_of_map split: if_splits)

text \<open>
  C9 (amended). With \<open>'from'\<close> equal to \<open>'data'\<close> the key is omitted. With \<open>'from'\<close>
  empty, the key becomes the one-element list of the guessed name when
  \<open>guess_source_layer_name\<close> finds one, and is omitted otherwise. The guess takes the
  last run of digits in the layer name (with no newline before it), keeps the text
  before and after it, and writes the number minus one in its place when the number
  is above zero; a name with no digit, or whose number is zero, has no guess. Any other
  string is split on commas. The result depends on the attributes and the name only.
\<close>

theorem to_json_from_normalised:
  fixes self :: container
  defines "attrs' \<equiv> map (\<lambda>(k, v). (k, case v of ANumpyBool b \<Rightarrow> ABool b | _ \<Rightarrow> v)) (attrs self)"
  shows "(map_of (attrs self) ''from'' = Some (AStr ''data'')
            \<longrightarrow> to_json self = Inr (AList.delete ''from'' attrs'))
       \<and> (map_of (attrs self) ''from'' = Some (AStr [])
            \<longrightarrow> to_json self =
                 Inr (case guess_source_layer_name (name self) of
                        Some guessed \<Rightarrow> AList.update ''from'' (AStrList [guessed]) attrs'
                      | None \<Rightarrow> AList.delete ''from'' attrs'))
       \<and> (\<forall>s. map_of (attrs self) ''from'' = Some (AStr s) \<and> s \<noteq> ''data'' \<and> s \<noteq> []
            \<longrightarrow> to_json self = Inr (AList.update ''from'' (AStrList (split_on CHR '','' s)) attrs'))
       \<and> (\<forall>pre ds suf. name self = pre @ ds @ suf
              \<and> (\<forall>c\<in>set pre. c \<noteq> CHR 0x0A) \<and> (pre = [] \<or> \<not> is_digit (last pre))
              \<and> ds \<noteq> [] \<and> list_all is_digit ds \<and> list_all (\<lambda>c. \<not> is_digit c) suf
            \<longrightarrow> guess_source_layer_name (name self) =
                 (if int_of_digits ds > 0 then Some (pre @ show_nat (int_of_digits ds - 1) @ suf) else None))
       \<and> ((\<forall>c\<in>set (name self). \<not> is_digit c) \<longrightarrow> guess_source_layer_name (name self) = None)
       \<and> (\<forall>other. attrs other = attrs self \<and> name other = name self \<longrightarrow> to_json other = to_json self)"
proof -
  have a: "map_of (attrs self) ''from'' = Some (AStr s) \<Longrightarrow> map_of attrs' ''from'' = Some (AStr s)" for s
    unfolding attrs'_def by (rule map_of_numpy_bool)
  have c1: "map_of (attrs self) ''from'' = Some (AStr ''data'')
            \<Longrightarrow> to_json self = Inr (AList.delete ''from'' attrs')"
    using a[of "''data''"] by (simp add: to_json_def attrs'_def)
  have c2: "map_of (attrs self) ''from'' = Some (AStr [])
            \<Longrightarrow> to_json self =
                 Inr (case guess_source_layer_name (name self) of
                        Some guessed \<Rightarrow> AList.update ''from'' (AStrList [guessed]) attrs'
                      | None \<Rightarrow> AList.delete ''from'' attrs')"
    using a[of "[]"] by (simp add: to_json_def attrs'_def split: option.splits)
  have c3: "map_of (attrs self) ''from'' = Some (AStr s) \<Longrightarrow> s \<noteq> ''data'' \<Longrightarrow> s \<noteq> []
            \<Longrightarrow> to_json self = Inr (AList.update ''from'' (AStrList (split_on CHR '','' s)) attrs')" for s
    using a[of s] by (simp add: to_json_def attrs'_def)
  have c4: "name self = pre @ ds @ suf \<Longrightarrow> \<forall>c\<in>set pre. c \<noteq> CHR 0x0A \<Longrightarrow> pre = [] \<or> \<not> is_digit (last pre)
            \<Longrightarrow> ds \<noteq> [] \<Longrightarrow> list_all is_digit ds \<Longrightarrow> list_all (\<lambda>c. \<not> is_digit c) suf
            \<Longrightarrow> guess_source_layer_name (name self) =
                 (if int_of_digits ds > 0 then Some (pre @ show_nat (int_of_digits ds - 1) @ suf) else None)"
    for pre ds suf
    using re_search_last_run[of pre ds suf "[]"] by (simp add: guess_source_layer_name_def)
  have c5: "\<forall>c\<in>set (name self). \<not> is_digit c \<Longrightarrow> guess_source_layer_name (name self) = None"
    using re_search_no_digit[of "name self" "[]"] by (simp add: guess_source_layer_name_def)
  have c6: "attrs other = attrs self \<Longrightarrow> name other = name self \<Longrightarrow> to_json other = to_json self" for other
    unfolding to_json_def by (erule subst, erule subst, rule refl)
  show ?thesis
    apply (intro conjI impI allI)
    subgoal by (rule c1)
    subgoal by (rule c2)
    subgoal for s by (elim conjE, rule c3)
    subgoal for pre ds suf by (elim conjE, rule c4)
    subgoal by (rule c5)
    subgoal for other by (elim conjE, rule c6)
    done
qed

theorem to_json_from_normalised_witness:
  "to_json (example_layer ''hidden_2'' [] [(''from'', AStr []), (''n_out'', AInt 4)])
     = Inr [(''from'', AStrList [''hidden_1'']), (''n_out'', AInt 4)]
   \<and> to_json (example_layer ''hidden_2'' [] [(''from'', AStr ''data''), (''n_out'', AInt 4)])
     = Inr [(''n_out'', AInt 4)]
   \<and> to_json (example_layer ''hidden_2'' [] [(''from'', AStr ''fw,bw''), (''n_out'', AInt 4)])
     = Inr [(''from'', AStrList [''fw'', ''bw'']), (''n_out'', AInt 4)]
   \<and> guess_source_layer_name ''lstm_12_fw'' = Some ''lstm_11_fw''
   \<and> guess_source_layer_name ''output'' = None
   \<and> to_json (example_layer ''hidden_2'' [(''W'', example_var ''W'' [1] [Fin 0])] [(''from'', AStr []), (''n_out'', AInt 4)])
     = to_json (example_layer ''hidden_2'' [] [(''from'', AStr []), (''n_out'', AInt 4)])"
proof -
  let ?l = "\<lambda>f. example_layer ''hidden_2'' [] [(''from'', AStr f), (''n_out'', AInt 4)]"
  have g: "guess_source_layer_name (name (?l [])) = Some ''hidden_1''"
    using to_json_from_normalised[of "?l []"]
    by (simp add: example_layer_def guess_source_layer_name_def match_here_def is_digit_def
        int_of_digits_def digit_val_def show_nat.simps digit_char_def)
  have w1: "to_json (?l []) = Inr [(''from'', AStrList [''hidden_1'']), (''n_out'', AInt 4)]"
  proof -
    have "map_of (attrs (?l [])) ''from'' = Some (AStr [])" by (simp add: example_layer_def)
    then have "to_json (?l []) = Inr (case guess_source_layer_name (name (?l [])) of
                        Some guessed \<Rightarrow> AList.update ''from'' (AStrList [guessed])
                           (map (\<lambda>(k, v). (k, case v of ANumpyBool b \<Rightarrow> ABool b | _ \<Rightarrow> v)) (attrs (?l [])))
                      | None \<Rightarrow> AList.delete ''from''
                           (map (\<lambda>(k, v). (k, case v of ANumpyBool b \<Rightarrow> ABool b | _ \<Rightarrow> v)) (attrs (?l []))))"
      using to_json_from_normalised[of "?l []"] by blast
    then show ?thesis unfolding g by (simp add: example_layer_def)
  qed
  have w2: "to_json (?l ''data'') = Inr [(''n_out'', AInt 4)]"
  proof -
    have "map_of (attrs (?l ''data'')) ''from'' = Some (AStr ''data'')" by (simp add: example_layer_def)
    then have "to_json (?l ''data'') = Inr (AList.delete ''from''
                           (map (\<lambda>(k, v). (k, case v of ANumpyBool b \<Rightarrow> ABool b | _ \<Rightarrow> v)) (attrs (?l ''data''))))"
      using to_json_from_normalised[of "?l ''data''"] by blast
    then show ?thesis by (simp add: example_layer_def)
  qed
  have w3: "to_json (?l ''fw,bw'') = Inr [(''from'', AStrList [''fw'', ''bw'']), (''n_out'', AInt 4)]"
  proof -
    have "map_of (attrs (?l ''fw,bw'')) ''from'' = Some (AStr ''fw,bw'') \<and> ''fw,bw'' \<noteq> ''data'' \<and> ''fw,bw'' \<noteq> []"
      by (simp add: example_layer_def)
    then have "to_json (?l ''fw,bw'') = Inr (AList.update ''from'' (AStrList (split_on CHR '','' ''fw,bw''))
                           (map (\<lambda>(k, v). (k, case v of ANumpyBool b \<Rightarrow> ABool b | _ \<Rightarrow> v)) (attrs (?l ''fw,bw''))))"
      using to_json_from_normalised[of "?l ''fw,bw''"] by blast
    then show ?thesis by (simp add: example_layer_def)
  qed
  have w4: "guess_source_layer_name ''lstm_12_fw'' = Some ''lstm_11_fw''"
  proof -
    have "name (example_layer ''lstm_12_fw'' [] []) = ''lstm_'' @ ''12'' @ ''_fw''
        \<and> (\<forall>c\<in>set ''lstm_''. c \<noteq> CHR 0x0A) \<and> (''lstm_'' = [] \<or> \<not> is_digit (last ''lstm_''))
        \<and> ''12'' \<noteq> [] \<and> list_all is_digit ''12'' \<and> list_all (\<lambda>c. \<not> is_digit c) ''_fw''"
      by (simp add: example_layer_def is_digit_def)
    then have "guess_source_layer_name (name (example_layer ''lstm_12_fw'' [] [])) =
        (if int_of_digits ''12'' > 0 then Some (''lstm_'' @ show_nat (int_of_digits ''12'' - 1) @ ''_fw'') else None)"
      using to_json_from_normalised[of "example_layer ''lstm_12_fw'' [] []"] by blast
    then show ?thesis
      by (simp add: example_layer_def int_of_digits_def digit_val_def show_nat.simps digit_char_def)
  qed
  have w5: "guess_source_layer_name ''output'' = None"
  proof -
    have "\<forall>c\<in>set (name (example_layer ''output'' [] [])). \<not> is_digit c"
      by (simp add: example_layer_def is_digit_def)
    then have "guess_source_layer_name (name (example_layer ''output'' [] [])) = None"
      using to_json_from_normalised[of "example_layer ''output'' [] []"] by blast
    then show ?thesis by (simp add: example_layer_def)
  qed
  have w6: "to_json (example_layer ''hidden_2'' [(''W'', example_var ''W'' [1] [Fin 0])] [(''from'', AStr []), (''n_out'', AInt 4)])
     = to_json (example_layer ''hidden_2'' [] [(''from'', AStr []), (''n_out'', AInt 4)])"
  proof -
  have "attrs (example_layer ''hidden_2'' [(''W'', example_var ''W'' [1] [Fin 0])] [(''from'', AStr []), (''n_out'', AInt 4)])
          = attrs (example_layer ''hidden_2'' [] [(''from'', AStr []), (''n_out'', AInt 4)])
      \<and> name (example_layer ''hidden_2'' [(''W'', example_var ''W'' [1] [Fin 0])] [(''from'', AStr []), (''n_out'', AInt 4)])
          = name (example_layer ''hidden_2'' [] [(''from'', AStr []), (''n_out'', AInt 4)])"
    by (simp add: example_layer_def)
  then show ?thesis
    using to_json_from_normalised[of "example_layer ''hidden_2'' [] [(''from'', AStr []), (''n_out'', AInt 4)]"]
    by blast
  qed
  show ?thesis using w1 w2 w3 w4 w5 w6 by simp
qed

text \<open>
  C9 as stated fails: for the layers \<open>hidden_0\<close> and \<open>output\<close> an empty \<open>'from'\<close> is
  not replaced by a one-element list; the key is dropped.
\<close>

theorem to_json_first_layer_counterexample:
  "to_json (example_layer ''hidden_0'' [] [(''from'', AStr []), (''n_out'', AInt 4)]) = Inr [(''n_out'', AInt 4)]
   \<and> to_json (example_layer ''output'' [] [(''from'', AStr []), (''n_out'', AInt 4)]) = Inr [(''n_out'', AInt 4)]"
  by (simp add: to_json_def example_layer_def guess_source_layer_name_def match_here_def is_digit_def
        int_of_digits_def digit_val_def)

section \<open>Masked rows in the LSTM step\<close>

lemma is_mat_row: "is_mat A r c \<Longrightarrow> b < r \<Longrightarrow> length (A ! b) = c"
  by (simp add: is_mat_def list_all_length)

lemma is_mat_length: "is_mat A r c \<Longrightarrow> length A = r"
  by (simp add: is_mat_def)

lemma madd_row: "b < length A \<Longrightarrow> b < length B \<Longrightarrow> madd A B ! b = map2 (+) (A ! b) (B ! b)"
  by (simp add: madd_def)

lemma mmul_row: "b < length A \<Longrightarrow> b < length B \<Longrightarrow> mmul A B ! b = map2 (*) (A ! b) (B ! b)"
  by (simp add: mmul_def)

lemma mmap_row: "b < length A \<Longrightarrow> mmap f A ! b = map f (A ! b)"
  by (simp add: mmap_def)

lemma cols_row: "b < length A \<Longrightarrow> cols i j A ! b = take (j - i) (drop i (A ! b))"
  by (simp add: cols_def)

lemma outer_row: "b < length v \<Longrightarrow> outer v w ! b = map (\<lambda>x. v ! b * x) w"
  by (simp add: outer_def)

lemma length_madd [simp]: "length (madd A B) = min (length A) (length B)"
  by (simp add: madd_def)

lemma length_mmul [simp]: "length (mmul A B) = min (length A) (length B)"
  by (simp add: mmul_def)

lemma length_mmap [simp]: "length (mmap f A) = length A"
  by (simp add: mmap_def)

lemma length_cols [simp]: "length (cols i j A) = length A"
  by (simp add: cols_def)

lemma length_outer [simp]: "length (outer v w) = length v"
  by (simp add: outer_def)

lemma length_dot [simp]: "length (dot A B) = length A"
  by (simp add: dot_def)

lemma length_vec_mat: "\<forall>row\<in>set B. length row = m \<Longrightarrow> length (vec_mat m v B) = m"
  unfolding vec_mat_def
proof (induction v arbitrary: B)
  case Nil then show ?case by simp
next
  case (Cons x v)
  show ?case
  proof (cases B)
    case Nil then show ?thesis by simp
  next
    case (Cons row B')
    then show ?thesis using Cons.IH[of B'] Cons.prems by simp
  qed
qed

lemma dot_row_length:
  "is_mat W k m \<Longrightarrow> b < length A \<Longrightarrow> length (dot A W ! b) = m"
  by (simp add: dot_def is_mat_def list_all_iff length_vec_mat)

lemma map2_times_zero: "length xs = n \<Longrightarrow> map2 (*) xs (replicate n (0::real)) = replicate n 0"
  by (induction xs arbitrary: n) auto

lemma map2_times_one: "length xs = n \<Longrightarrow> map2 (*) xs (replicate n (1::real)) = xs"
  by (induction xs arbitrary: n) auto

lemma map2_plus_zero: "length xs = n \<Longrightarrow> map2 (+) (replicate n (0::real)) xs = xs"
  by (induction xs arbitrary: n) auto

lemma ncols_madd_dot:
  assumes "is_mat z1 B w" "is_mat y_p B k" "is_mat W_re k w"
  shows "is_mat (madd z1 (dot y_p W_re)) B w"
proof -
  let ?z2 = "madd z1 (dot y_p W_re)"
  have len: "length ?z2 = B" using assms by (simp add: is_mat_def)
  have rows: "\<And>b. b < B \<Longrightarrow> length (?z2 ! b) = w"
  proof -
    fix b assume b: "b < B"
    have "length (z1 ! b) = w" using assms(1) b by (rule is_mat_row)
    moreover have "length (dot y_p W_re ! b) = w"
      using assms(2,3) b by (simp add: dot_row_length is_mat_length)
    ultimately show "length (?z2 ! b) = w"
      using b assms(1,2) by (simp add: madd_row is_mat_length)
  qed
  have "ncols ?z2 = w"
  proof (cases ?z2)
    case Nil
    then have "B = 0" using len by simp
    then have "z1 = []" using assms(1) by (simp add: is_mat_def)
    then have "w = 0" using assms(1) by (simp add: is_mat_def ncols_def)
    then show ?thesis using Nil by (simp add: ncols_def)
  next
    case (Cons r rs)
    then have "0 < B" using len by auto
    from rows[OF this] show ?thesis using Cons by (simp add: ncols_def)
  qed
  then show ?thesis using len rows by (simp add: is_mat_def list_all_length)
qed

lemma is_mat_madd:
  "is_mat X B w \<Longrightarrow> is_mat Y B w \<Longrightarrow> is_mat (madd X Y) B w"
  by (cases X; cases Y) (auto simp: is_mat_def madd_def ncols_def list_all_length nth_Cons split: nat.splits)


text \<open>
  C1 (amended). In one \<open>LSTME.step\<close> on operands of agreeing shapes, a batch row whose
  index flag is 0 keeps its cell state: the cell state after the step equals the cell
  state before it in that row. The output state of that row after the step is zero in
  every unit, whatever the output state before the step was.
\<close>

theorem LSTME_step_masked_row:
  assumes shapes: "LSTME_shapes n_units (fst (LSTME_transform rt other_args y_p)) W_re i_t z_t y_p c_p"
    and b: "b < length i_t" and masked: "i_t ! b = 0"
  shows "\<exists>y' c' rest. LSTME_step n_units rt W_re i_t x_t z_t (y_p # c_p # other_args) = Inr (y' # c' # rest)
            \<and> c' ! b = c_p ! b
            \<and> y' ! b = replicate n_units 0"
proof -
  obtain z_r other_outputs where tr: "LSTME_transform rt other_args y_p = (z_r, other_outputs)"
    by (cases "LSTME_transform rt other_args y_p")
  define B where "B = length z_t"
  define w where "w = ncols z_t"
  define z1 where "z1 = (case z_r of None \<Rightarrow> z_t | Some zr \<Rightarrow> madd z_t zr)"
  define z2 where "z2 = madd z1 (dot y_p W_re)"
  define p where "p = ncols z2 div 4"
  define c_t where "c_t = madd (mmul (mmap sigmoid (cols p (2 * p) z2)) c_p)
                             (mmul (mmap sigmoid (cols 0 p z2)) (mmap tanh (cols (3 * p) (4 * p) z2)))"
  define y_t where "y_t = mmul (mmap sigmoid (cols (2 * p) (3 * p) z2)) (mmap tanh c_t)"
  define i_h where "i_h = outer i_t (replicate n_units 1)"
  have sh: "LSTME_shapes n_units z_r W_re i_t z_t y_p c_p" using shapes by (simp add: tr)
  have zt: "is_mat z_t B w" and yp: "is_mat y_p B (length W_re)" and wre: "is_mat W_re (length W_re) w"
    and cp: "is_mat c_p B (w div 4)" and it: "length i_t = B" and nu: "n_units = w div 4"
    using sh by (simp_all add: LSTME_shapes_def Let_def B_def w_def)
  have zr: "case z_r of None \<Rightarrow> True | Some zr \<Rightarrow> is_mat zr B w"
    using sh by (auto simp: LSTME_shapes_def Let_def B_def w_def split: option.splits)
  have z1m: "is_mat z1 B w"
    using zt zr by (cases z_r) (simp_all add: z1_def is_mat_madd)
  have z2m: "is_mat z2 B w" unfolding z2_def by (rule ncols_madd_dot[OF z1m yp wre])
  have pw: "p = w div 4" using z2m by (simp add: p_def is_mat_def)
  have pn: "p = n_units" using pw nu by simp
  have bB: "b < B" using b it by simp
  have z2row: "length (z2 ! b) = w" using z2m bB by (rule is_mat_row)
  have z2len: "length z2 = B" using z2m by (rule is_mat_length)
  have cprow: "length (c_p ! b) = p" using cp bB pw by (simp add: is_mat_row)
  have cplen: "length c_p = B" using cp by (rule is_mat_length)
  have p4: "4 * p \<le> w" using pw by simp
  have ctrow: "length (c_t ! b) = p"
    using bB z2len cplen z2row cprow p4
    by (simp add: c_t_def madd_row mmul_row mmap_row cols_row)
  have ctlen: "length c_t = B" using z2len cplen by (simp add: c_t_def)
  have ytrow: "length (y_t ! b) = p"
    using bB z2len ctlen z2row ctrow p4 by (simp add: y_t_def mmul_row mmap_row cols_row)
  have ytlen: "length y_t = B" using z2len ctlen by (simp add: y_t_def)
  have ihrow: "i_h ! b = replicate p 0"
    using b masked pn by (simp add: i_h_def outer_row)
  have ihlen: "length i_h = B" using it by (simp add: i_h_def)
  have step: "LSTME_step n_units rt W_re i_t x_t z_t (y_p # c_p # other_args)
      = Inr (mmul y_t i_h # madd (mmul c_t i_h) (mmul c_p (mmap (\<lambda>v. 1 - v) i_h)) # other_outputs)"
    using sh
    by (simp add: LSTME_step_def tr Let_def z1_def z2_def p_def c_t_def y_t_def i_h_def)
  have c': "madd (mmul c_t i_h) (mmul c_p (mmap (\<lambda>v. 1 - v) i_h)) ! b = c_p ! b"
    using bB ctlen cplen ihlen ctrow cprow
    by (simp add: madd_row mmul_row mmap_row ihrow map2_times_zero map2_times_one map2_plus_zero)
  have y': "mmul y_t i_h ! b = replicate n_units 0"
    using bB ytlen ihlen ytrow pn by (simp add: mmul_row ihrow map2_times_zero)
  show ?thesis using step c' y' by blast
qed

theorem LSTME_step_masked_row_witness:
  "LSTME_shapes 1 (fst (LSTME_transform None [] [[1]])) [[1, 1, 1, 1]] [0] [[1, 2, 3, 4]] [[1]] [[2]]
   \<and> (\<exists>y' c' rest. LSTME_step 1 None [[1, 1, 1, 1]] [0] [[0]] [[1, 2, 3, 4]] ([[1]] # [[2]] # []) = Inr (y' # c' # rest)
            \<and> c' ! 0 = [[2]] ! 0
            \<and> y' ! 0 = replicate 1 0)"
proof -
  have h1: "LSTME_shapes 1 (fst (LSTME_transform None [] [[1]])) [[1, 1, 1, 1]] [0] [[1, 2, 3, 4]] [[1]] [[2]]"
    by (simp add: LSTME_shapes_def LSTME_transform_def is_mat_def ncols_def)
  have h2: "(0::nat) < length [0::real]" by simp
  have h3: "[0::real] ! 0 = 0" by simp
  show ?thesis using h1 LSTME_step_masked_row[OF h1 h2 h3, of "[[0]]"] by blast
qed

text \<open>
  C1 as stated fails for the output state: with index flag 0 the row's output state
  \<open>[1]\<close> becomes \<open>[0]\<close>, while the cell state \<open>[2]\<close> is kept.
\<close>

theorem LSTME_step_output_state_zeroed_counterexample:
  "LSTME_step 1 None [[1, 1, 1, 1]] [0] [[0]] [[1, 2, 3, 4]] [[[1]], [[2]]] = Inr [[[0]], [[2]]]"
  by (simp add: LSTME_step_def LSTME_transform_def LSTME_shapes_def is_mat_def ncols_def
      madd_def mmul_def mmap_def outer_def cols_def dot_def vec_mat_def Let_def)

section \<open>Scanning the VANILLA unit\<close>

lemma dims_madd: "map length A = map length B \<Longrightarrow> map length (madd A B) = map length B"
proof (induction A arbitrary: B)
  case Nil then show ?case by (simp add: madd_def)
next
  case (Cons a A)
  then obtain b B' where B: "B = b # B'" by (cases B) auto
  have "map length (madd A B') = map length B'" using Cons.prems B by (intro Cons.IH) simp
  then show ?case using Cons.prems B by (simp add: madd_def)
qed

lemma dims_mmap: "map length (mmap f A) = map length A"
  by (simp add: mmap_def)

lemma VANILLA_scan_loop:
  "\<forall>(i_t, x_t, z_t)\<in>set sequences. map length z_t = map length h_p
    \<Longrightarrow> scan_loop VANILLA_step sequences [h_p] [extra]
        = Inr (map (\<lambda>h. [h]) (tanh_recurrence (map (\<lambda>(i_t, x_t, z_t). z_t) sequences) h_p))"
proof (induction sequences arbitrary: h_p)
  case Nil then show ?case by simp
next
  case (Cons s sequences)
  obtain i_t x_t z_t where s: "s = (i_t, x_t, z_t)" by (cases s)
  let ?h = "mmap tanh (madd z_t h_p)"
  have d: "map length z_t = map length h_p" using Cons.prems s by simp
  have st: "VANILLA_step i_t x_t z_t ([h_p] @ [extra]) = Inr [?h]"
    using d by (simp add: VANILLA_step_def)
  have dh: "map length ?h = map length h_p" using d by (simp add: dims_mmap dims_madd)
  have "\<forall>(i_t, x_t, z_t)\<in>set sequences. map length z_t = map length ?h"
    using Cons.prems dh by auto
  from Cons.IH[OF this] show ?case using st by (simp add: s)
qed

lemma VANILLA_scan_one_non_sequence:
  assumes "\<forall>z_t\<in>set z. map length z_t = map length h0" "length i = length z"
  shows "Unit_scan VANILLA_step [] z [extra] i [h0] False = Inr (map (\<lambda>h. [h]) (tanh_recurrence z h0))"
proof -
  have a: "\<forall>(i_t, x_t, z_t)\<in>set (zip i (zip z z)). map length z_t = map length h0"
    using assms(1) by (auto dest!: set_zip_rightD)
  have b: "map (\<lambda>(i_t, x_t, z_t). z_t) (zip i (zip z z)) = z"
    using assms(2) by (induction i z rule: list_induct2') auto
  show ?thesis using VANILLA_scan_loop[OF a, of extra] by (simp add: Unit_scan_def b)
qed

lemma VANILLA_step_arity:
  "length args \<noteq> 2 \<Longrightarrow> VANILLA_step i_t x_t z_t args = Inl TypeError"
proof (cases args)
  case Nil then show ?thesis by (simp add: VANILLA_step_def)
next
  case (Cons a as)
  assume l: "length args \<noteq> 2"
  show ?thesis
  proof (cases as)
    case Nil then show ?thesis using Cons by (simp add: VANILLA_step_def)
  next
    case c2: (Cons b bs)
    then have "bs \<noteq> []" using l Cons by auto
    then show ?thesis using Cons c2 by (cases bs) (simp_all add: VANILLA_step_def)
  qed
qed

lemma VANILLA_scan_loop_arity:
  assumes "sequences \<noteq> []" "length outputs_info + length non_sequences \<noteq> 2"
  shows "scan_loop VANILLA_step sequences outputs_info non_sequences = Inl TypeError"
proof -
  obtain i_t x_t z_t rest where s: "sequences = (i_t, x_t, z_t) # rest"
    using assms(1) by (cases sequences) auto
  have "VANILLA_step i_t x_t z_t (outputs_info @ non_sequences) = Inl TypeError"
    using assms(2) by (intro VANILLA_step_arity) simp
  then show ?thesis by (simp add: s)
qed

text \<open>
  C2. The claim describes the recurrence \<open>h_t = tanh (z_t + h_{t-1})\<close> from the initial
  state; \<open>VANILLA_scan_one_non_sequence\<close> shows that the scan computes it when the step
  receives its five arguments. Called as the recurrent layer calls \<open>Unit.scan\<close>, with
  one initial state and no non-sequences, the step receives four arguments: on two time
  steps of a batch of one with one source, all-ones index and zero initial state the
  scan ends in \<open>TypeError\<close> instead of returning \<open>tanh (z_0 + 0)\<close> and
  \<open>tanh (z_1 + h_0)\<close>.
\<close>

theorem VANILLA_scan_missing_argument:
  "Unit_scan VANILLA_step [[[[5]], [[6]]]] [[[1, 2]], [[3, 4]]] [] [[1], [1]] [[[0, 0]]] False = Inl TypeError"
  by (simp add: Unit_scan_def VANILLA_step_def)

text \<open>The same scan with one non-sequence, which fills the fifth argument of the step.\<close>

lemma VANILLA_scan_example:
  "Unit_scan VANILLA_step [[[[5]], [[6]]]] [[[1, 2]], [[3, 4]]] [[[9]]] [[1], [1]] [[[0, 0]]] False
     = Inr [[[[tanh 1, tanh 2]]], [[[tanh (3 + tanh 1), tanh (4 + tanh 2)]]]]"
  by (simp add: Unit_scan_def VANILLA_step_def mmap_def madd_def)

section \<open>Consensus over the depth axis\<close>

lemma tmap_tmap: "tmap f (tmap g t) = tmap (\<lambda>v. f (g v)) t"
  by (induction t) simp_all

lemma tmap_ident: "(\<And>v. f v = v) \<Longrightarrow> tmap f t = t"
  by (induction t) (simp_all add: map_idI)

lemma sum_of_mean_list:
  "ts \<noteq> [] \<Longrightarrow> treduce (+) ts = tmap (\<lambda>v. v * real (length ts)) (mean_list ts)"
  by (simp add: mean_list_def tmap_tmap tmap_ident)

lemma proper_children:
  assumes "proper (Tensor ts)" "c \<in> set ts"
  shows "proper c" "shape_of (Tensor ts) = length ts # shape_of c"
proof -
  obtain t ts' where ts: "ts = t # ts'" using assms(2) by (cases ts) auto
  have r: "rect c" and sh: "shape_of c = shape_of t"
    using assms by (auto simp: proper_def ts list_all_iff)
  show "shape_of (Tensor ts) = length ts # shape_of c" using sh by (simp add: ts)
  have "0 \<notin> set (shape_of t)" using assms(1) by (simp add: proper_def ts)
  then show "proper c" using r sh by (simp add: proper_def)
qed

lemma proper_nonempty: "proper (Tensor ts) \<Longrightarrow> ts \<noteq> []"
  by (auto simp: proper_def)

lemma sum_axis_of_mean_axis:
  "reducible t k \<Longrightarrow> T_sum k t = tmap (\<lambda>v. v * real (shape_of t ! k)) (T_mean k t)"
proof (induction k arbitrary: t)
  case 0
  then obtain ts where t: "t = Tensor ts" by (cases t) (auto simp: reducible_def)
  have ne: "ts \<noteq> []" using 0 t by (auto simp: reducible_def dest: proper_nonempty)
  then obtain c ts' where ts: "ts = c # ts'" by (cases ts) auto
  have "shape_of t ! 0 = length ts" by (simp add: t ts)
  then show ?case using sum_of_mean_list[OF ne] by (simp add: T_sum_def T_mean_def t)
next
  case (Suc k)
  then obtain ts where t: "t = Tensor ts" by (cases t) (auto simp: reducible_def)
  have p: "proper (Tensor ts)" and rk: "Suc k < length (shape_of (Tensor ts))"
    using Suc.prems t by (simp_all add: reducible_def)
  have child: "\<And>c. c \<in> set ts \<Longrightarrow>
      T_sum k c = tmap (\<lambda>v. v * real (shape_of t ! Suc k)) (T_mean k c)"
  proof -
    fix c assume c: "c \<in> set ts"
    have pc: "proper c" and sh: "shape_of (Tensor ts) = length ts # shape_of c"
      using proper_children[OF p c] by simp_all
    have "reducible c k" using pc rk sh by (simp add: reducible_def)
    from Suc.IH[OF this] show "T_sum k c = tmap (\<lambda>v. v * real (shape_of t ! Suc k)) (T_mean k c)"
      using sh by (simp add: t)
  qed
  then show ?case by (simp add: T_sum_def T_mean_def t)
qed

text \<open>
  C8. For a tensor \<open>x\<close> with no empty axis and a depth axis \<open>axis\<close>, the consensus
  \<open>'sum'\<close> and the consensus \<open>'mean'\<close> both succeed, leave the layer as it is, and the
  sum equals the mean multiplied element-wise by the size of the depth axis (exact
  arithmetic).
\<close>

theorem consensus_sum_equals_depth_times_mean:
  assumes "map_of (attrs self_sum) ''consensus'' = Some (AStr ''sum'')"
    and "map_of (attrs self_mean) ''consensus'' = Some (AStr ''mean'')"
    and "reducible x axis"
  shows "\<exists>s m. make_consensus env self_sum x axis = Inr (s, self_sum)
            \<and> make_consensus env self_mean x axis = Inr (m, self_mean)
            \<and> s = tmap (\<lambda>v. v * real (shape_of x ! axis)) m"
  using assms sum_axis_of_mean_axis[OF assms(3)]
  by (simp add: make_consensus_def bind_err_def attr_get_def)

theorem consensus_sum_equals_depth_times_mean_witness:
  "reducible (Tensor [Tensor [Tensor [Tensor [Scalar 1, Scalar 2], Tensor [Scalar 3, Scalar 4]]]]) 2
   \<and> shape_of (Tensor [Tensor [Tensor [Tensor [Scalar 1, Scalar 2], Tensor [Scalar 3, Scalar 4]]]]) ! 2 = 2
   \<and> make_consensus (example_env (Scalar 0, 0)) (example_layer ''hidden_1'' [] (example_attrs ''sum'' 0 False))
        (Tensor [Tensor [Tensor [Tensor [Scalar 1, Scalar 2], Tensor [Scalar 3, Scalar 4]]]]) 2
      = Inr (Tensor [Tensor [Tensor [Scalar 4, Scalar 6]]], example_layer ''hidden_1'' [] (example_attrs ''sum'' 0 False))
   \<and> make_consensus (example_env (Scalar 0, 0)) (example_layer ''hidden_1'' [] (example_attrs ''mean'' 0 False))
        (Tensor [Tensor [Tensor [Tensor [Scalar 1, Scalar 2], Tensor [Scalar 3, Scalar 4]]]]) 2
      = Inr (Tensor [Tensor [Tensor [Scalar 2, Scalar 3]]], example_layer ''hidden_1'' [] (example_attrs ''mean'' 0 False))
   \<and> (\<exists>s m. make_consensus (example_env (Scalar 0, 0)) (example_layer ''hidden_1'' [] (example_attrs ''sum'' 0 False))
                (Tensor [Tensor [Tensor [Tensor [Scalar 1, Scalar 2], Tensor [Scalar 3, Scalar 4]]]]) 2
               = Inr (s, example_layer ''hidden_1'' [] (example_attrs ''sum'' 0 False))
            \<and> make_consensus (example_env (Scalar 0, 0)) (example_layer ''hidden_1'' [] (example_attrs ''mean'' 0 False))
                (Tensor [Tensor [Tensor [Tensor [Scalar 1, Scalar 2], Tensor [Scalar 3, Scalar 4]]]]) 2
               = Inr (m, example_layer ''hidden_1'' [] (example_attrs ''mean'' 0 False))
            \<and> s = tmap (\<lambda>v. v * real (shape_of (Tensor [Tensor [Tensor [Tensor [Scalar 1, Scalar 2], Tensor [Scalar 3, Scalar 4]]]]) ! 2)) m)"
proof -
  let ?x = "Tensor [Tensor [Tensor [Tensor [Scalar 1, Scalar 2], Tensor [Scalar 3, Scalar 4]]]]"
  let ?ls = "example_layer ''hidden_1'' [] (example_attrs ''sum'' 0 False)"
  let ?lm = "example_layer ''hidden_1'' [] (example_attrs ''mean'' 0 False)"
  have h1: "map_of (attrs ?ls) ''consensus'' = Some (AStr ''sum'')"
    by (simp add: example_layer_def example_attrs_def)
  have h2: "map_of (attrs ?lm) ''consensus'' = Some (AStr ''mean'')"
    by (simp add: example_layer_def example_attrs_def)
  have h3: "reducible ?x 2" by (simp add: reducible_def proper_def)
  have d: "shape_of ?x ! 2 = 2" by simp
  have e1: "make_consensus (example_env (Scalar 0, 0)) ?ls ?x 2 = Inr (Tensor [Tensor [Tensor [Scalar 4, Scalar 6]]], ?ls)"
    using h1 h3 by (simp add: make_consensus_def bind_err_def attr_get_def T_sum_def numeral_2_eq_2)
  have e2: "make_consensus (example_env (Scalar 0, 0)) ?lm ?x 2 = Inr (Tensor [Tensor [Tensor [Scalar 2, Scalar 3]]], ?lm)"
    using h2 h3 by (simp add: make_consensus_def bind_err_def attr_get_def T_mean_def mean_list_def numeral_2_eq_2)
  show ?thesis
    using h3 d e1 e2 consensus_sum_equals_depth_times_mean[OF h1 h2 h3, of "example_env (Scalar 0, 0)"]
    by blast
qed

section \<open>Layer drop at inference\<close>












end
